theory Spec2Isabelle
  imports Complex_Main "HOL-Library.Stream" "HOL-Library.AList"
begin

section \<open>Numbers, defaults and sources of randomness\<close>

text \<open>
  The simulation is written in TypeScript. A \<^verbatim>\<open>number\<close> is modelled as a \<^typ>\<open>real\<close>,
  grid coordinates as \<^typ>\<open>int\<close>, population counts as \<^typ>\<open>nat\<close>. Where the source
  divides by a quantity that may be zero, the model writes out what JavaScript computes
  (\<^verbatim>\<open>NaN\<close>, \<^verbatim>\<open>Infinity\<close>). The rounding of IEEE doubles is not modelled, with one
  exception: where a product can underflow to \<^verbatim>\<open>0\<close> and the code then tests the result
  for being falsy, the rounding of the product is written out (\<open>half\<close> below).

  \<^verbatim>\<open>Math.random()\<close> returns a number in the interval from 0 (included) to 1 (excluded):
  a \<open>draw\<close>, read by \<open>val\<close>. The random source is a stream of draws that every
  stochastic function consumes from the front and hands back; \<^verbatim>\<open>uuidv4()\<close> is a stream
  of identifiers.
\<close>

typedef draw = "{r::real. 0 \<le> r \<and> r < 1}"
  morphisms val Draw
  by (rule exI [of _ 0]) simp

type_synonym rng = "draw stream"
type_synonym uuids = "string stream"

text \<open>
  \<^verbatim>\<open>xs[Math.floor(Math.random() * xs.length)]\<close>; every caller makes sure that the
  array is not empty, and the index is then inside the array.
\<close>

definition pick :: "'a list \<Rightarrow> draw \<Rightarrow> 'a" where
  "pick xs r = xs ! nat \<lfloor>val r * real (length xs)\<rfloor>"

text \<open>
  \<^verbatim>\<open>a || d\<close> on an optional field: the default \<^verbatim>\<open>d\<close> is taken when the field is
  \<^verbatim>\<open>undefined\<close> and also when it is falsy, that is \<^verbatim>\<open>0\<close> for a number, \<^verbatim>\<open>''\<close> for a
  string and \<^verbatim>\<open>false\<close> for a boolean. Enumeration members and objects are truthy.
\<close>

definition or_num :: "real option \<Rightarrow> real \<Rightarrow> real" where
  "or_num a d = (case a of None \<Rightarrow> d | Some v \<Rightarrow> if v = 0 then d else v)"

definition or_int :: "int option \<Rightarrow> int \<Rightarrow> int" where
  "or_int a d = (case a of None \<Rightarrow> d | Some v \<Rightarrow> if v = 0 then d else v)"

definition or_str :: "string option \<Rightarrow> string \<Rightarrow> string" where
  "or_str a d = (case a of None \<Rightarrow> d | Some v \<Rightarrow> if v = [] then d else v)"

definition or_bool :: "bool option \<Rightarrow> bool \<Rightarrow> bool" where
  "or_bool a d = (case a of None \<Rightarrow> d | Some v \<Rightarrow> if v then v else d)"

definition or_obj :: "'a option \<Rightarrow> 'a \<Rightarrow> 'a" where
  "or_obj a d = (case a of None \<Rightarrow> d | Some v \<Rightarrow> v)"

text \<open>
  \<^verbatim>\<open>x * 0.5\<close> on doubles. The smallest positive double is \<^verbatim>\<open>Number.MIN_VALUE\<close>, which is
  \<open>2\<close> to the power \<open>-1074\<close> (about \<^verbatim>\<open>5e-324\<close>), and the smallest positive normal double
  is \<open>2\<close> to the power \<open>-1022\<close>. Halving a double is exact when the result is a normal
  number. Below that the doubles are the multiples of \<^verbatim>\<open>Number.MIN_VALUE\<close>, and the
  result is the multiple nearest to the exact half, the even one of two that are equally
  near. So the product is \<^verbatim>\<open>0\<close> for \<^verbatim>\<open>x = 0\<close> and also for \<^verbatim>\<open>x = Number.MIN_VALUE\<close> and
  its negative.
\<close>

definition MIN_VALUE :: real where
  "MIN_VALUE = 1 / 2 ^ 1074"

definition minNormal :: real where
  "minNormal = 1 / 2 ^ 1022"

definition roundHalfEven :: "real \<Rightarrow> int" where
  "roundHalfEven y =
     (if y - real_of_int \<lfloor>y\<rfloor> < 1 / 2 then \<lfloor>y\<rfloor>
      else if y - real_of_int \<lfloor>y\<rfloor> > 1 / 2 then \<lfloor>y\<rfloor> + 1
      else if even \<lfloor>y\<rfloor> then \<lfloor>y\<rfloor> else \<lfloor>y\<rfloor> + 1)"

definition half :: "real \<Rightarrow> real" where
  "half x =
     (if \<bar>x\<bar> / 2 < minNormal
      then real_of_int (roundHalfEven (x / 2 / MIN_VALUE)) * MIN_VALUE
      else x * 0.5)"

section \<open>Types (types.ts)\<close>

datatype OrganismType = Producer | Consumer | Decomposer

datatype ConsumerType = Herbivore | Carnivore | Omnivore

record Position =
  pos_x :: int
  pos_y :: int

datatype Season = Spring | Summer | Fall | Winter

record EnvironmentConfig =
  temperature :: real
  rainfall :: real
  seasonalFactor :: real
  nutrientLevel :: real
  sunlightIntensity :: real
  width :: int
  height :: int
  pollutionLevel :: real
  season :: Season
  day :: nat

datatype DisturbanceType = Fire | Drought | Flood | Disease | HumanActivity | NoDisturbance

record Area =
  startX :: int
  startY :: int
  endX :: int
  endY :: int

record Disturbance =
  d_type :: DisturbanceType
  intensity :: real
  duration :: real
  affectedArea :: Area
  current :: real
  active :: bool

record Cell =
  cell_x :: int
  cell_y :: int
  cell_height :: real
  cell_nutrientLevel :: real
  waterLevel :: real
  organisms :: "string list"
  cell_temperature :: real
  cell_pollutionLevel :: real

record SimulationConfig =
  gridWidth :: int
  gridHeight :: int
  initialProducers :: int
  initialHerbivores :: int
  initialCarnivores :: int
  initialDecomposers :: int
  simulationSpeed :: real
  initialTemperature :: real
  initialRainfall :: real
  enableEvolution :: bool
  enableDisturbances :: bool

text \<open>
  \<^verbatim>\<open>OrganismAttributes\<close> as stored in the organism table: the base fields, and the
  fields of the three extending interfaces, which are present only when the object
  came from the \<^verbatim>\<open>getAttributes\<close> of that class.
\<close>

record OrganismAttributes =
  a_id :: string
  a_type :: OrganismType
  a_position :: Position
  a_energy :: real
  a_size :: real
  a_age :: real
  a_maxAge :: real
  a_reproductionEnergy :: real
  a_reproductionRate :: real
  a_movementCost :: real
  a_isDead :: bool
  a_species :: string
  a_growthRate :: "real option"
  a_photosynthesisRate :: "real option"
  a_waterConsumption :: "real option"
  a_consumerType :: "ConsumerType option"
  a_huntingEfficiency :: "real option"
  a_metabolismRate :: "real option"
  a_diet :: "string list option"
  a_decompositionRate :: "real option"
  a_nutrientProductionRate :: "real option"

text \<open>\<^verbatim>\<open>Partial<...Attributes>\<close>, the argument of the constructors: every field optional.\<close>

record PartialAttributes =
  p_id :: "string option"
  p_type :: "OrganismType option"
  p_position :: "Position option"
  p_energy :: "real option"
  p_size :: "real option"
  p_age :: "real option"
  p_maxAge :: "real option"
  p_reproductionEnergy :: "real option"
  p_reproductionRate :: "real option"
  p_movementCost :: "real option"
  p_isDead :: "bool option"
  p_species :: "string option"
  p_growthRate :: "real option"
  p_photosynthesisRate :: "real option"
  p_waterConsumption :: "real option"
  p_consumerType :: "ConsumerType option"
  p_huntingEfficiency :: "real option"
  p_metabolismRate :: "real option"
  p_diet :: "string list option"
  p_decompositionRate :: "real option"
  p_nutrientProductionRate :: "real option"

definition no_attributes :: PartialAttributes where
  "no_attributes = \<lparr>p_id = None, p_type = None, p_position = None, p_energy = None,
     p_size = None, p_age = None, p_maxAge = None, p_reproductionEnergy = None,
     p_reproductionRate = None, p_movementCost = None, p_isDead = None, p_species = None,
     p_growthRate = None, p_photosynthesisRate = None, p_waterConsumption = None,
     p_consumerType = None, p_huntingEfficiency = None, p_metabolismRate = None,
     p_diet = None, p_decompositionRate = None, p_nutrientProductionRate = None\<rparr>"

text \<open>An attributes object of the table passed where a \<^verbatim>\<open>Partial\<close> is expected.\<close>

definition as_partial :: "OrganismAttributes \<Rightarrow> PartialAttributes" where
  "as_partial a = \<lparr>p_id = Some (a_id a), p_type = Some (a_type a),
     p_position = Some (a_position a), p_energy = Some (a_energy a),
     p_size = Some (a_size a), p_age = Some (a_age a), p_maxAge = Some (a_maxAge a),
     p_reproductionEnergy = Some (a_reproductionEnergy a),
     p_reproductionRate = Some (a_reproductionRate a),
     p_movementCost = Some (a_movementCost a), p_isDead = Some (a_isDead a),
     p_species = Some (a_species a),
     p_growthRate = a_growthRate a, p_photosynthesisRate = a_photosynthesisRate a,
     p_waterConsumption = a_waterConsumption a,
     p_consumerType = a_consumerType a, p_huntingEfficiency = a_huntingEfficiency a,
     p_metabolismRate = a_metabolismRate a, p_diet = a_diet a,
     p_decompositionRate = a_decompositionRate a,
     p_nutrientProductionRate = a_nutrientProductionRate a\<rparr>"

section \<open>Organism (models/Organism.ts)\<close>

record Organism =
  org_id :: string
  org_type :: OrganismType
  position :: Position
  energy :: real
  org_size :: real
  age :: real
  maxAge :: real
  reproductionEnergy :: real
  reproductionRate :: real
  movementCost :: real
  isDead :: bool
  species :: string

text \<open>The constructor; \<^verbatim>\<open>uuidv4()\<close> is called only when no truthy id is supplied.\<close>

definition Organism_new :: "PartialAttributes \<Rightarrow> uuids \<Rightarrow> Organism \<times> uuids" where
  "Organism_new attributes u =
     (let (i, u') = (case p_id attributes of
                       None \<Rightarrow> (shd u, stl u)
                     | Some s \<Rightarrow> if s = [] then (shd u, stl u) else (s, u))
      in (\<lparr>org_id = i,
           org_type = or_obj (p_type attributes) Producer,
           position = or_obj (p_position attributes) \<lparr>pos_x = 0, pos_y = 0\<rparr>,
           energy = or_num (p_energy attributes) 100,
           org_size = or_num (p_size attributes) 1,
           age = or_num (p_age attributes) 0,
           maxAge = or_num (p_maxAge attributes) 100,
           reproductionEnergy = or_num (p_reproductionEnergy attributes) 150,
           reproductionRate = or_num (p_reproductionRate attributes) 0.2,
           movementCost = or_num (p_movementCost attributes) 1,
           isDead = or_bool (p_isDead attributes) False,
           species = or_str (p_species attributes) ''Generic Organism''\<rparr>, u'))"

definition die :: "'a Organism_scheme \<Rightarrow> 'a Organism_scheme" where
  "die this = this\<lparr>isDead := True\<rparr>"

definition Organism_update :: "'a Organism_scheme \<Rightarrow> 'a Organism_scheme" where
  "Organism_update this =
     (let this1 = this\<lparr>age := age this + 1\<rparr>
      in if age this1 \<ge> maxAge this1 then die this1
         else if energy this1 \<le> 0 then die this1
         else this1)"

definition move :: "'a Organism_scheme \<Rightarrow> Position \<Rightarrow> 'a Organism_scheme" where
  "move this newPosition =
     this\<lparr>position := newPosition, energy := energy this - movementCost this\<rparr>"

text \<open>\<^verbatim>\<open>&&\<close> short-circuits: the random number is drawn only when the energy suffices.\<close>

definition canReproduce :: "'a Organism_scheme \<Rightarrow> rng \<Rightarrow> bool \<times> rng" where
  "canReproduce this g =
     (if energy this \<ge> reproductionEnergy this
      then (val (shd g) < reproductionRate this, stl g)
      else (False, g))"

text \<open>
  \<^verbatim>\<open>reproduce\<close> is defined in the base class only and returns a base \<^verbatim>\<open>Organism\<close>.
  The five jitters are drawn in the order of the object literal. Both
  \<^verbatim>\<open>this.energy * 0.5\<close> and \<^verbatim>\<open>this.energy *= 0.5\<close> are \<open>half\<close>; the offspring's half goes
  through the constructor's \<^verbatim>\<open>attributes.energy || 100\<close>. The result is the parent after
  the call, the offspring, and the rest of both streams.
\<close>

definition reproduce ::
  "'a Organism_scheme \<Rightarrow> rng \<Rightarrow> uuids \<Rightarrow> 'a Organism_scheme \<times> Organism \<times> rng \<times> uuids" where
  "reproduce this g u =
     (let r1 = val (shd g); r2 = val (shd (stl g)); r3 = val (shd (stl (stl g)));
          r4 = val (shd (stl (stl (stl g)))); r5 = val (shd (stl (stl (stl (stl g)))));
          g' = stl (stl (stl (stl (stl g))));
          offspringAttributes = no_attributes\<lparr>
            p_type := Some (org_type this),
            p_position := Some (position this),
            p_energy := Some (half (energy this)),
            p_size := Some (org_size this * (0.9 + r1 * 0.2)),
            p_maxAge := Some (maxAge this * (0.9 + r2 * 0.2)),
            p_reproductionEnergy := Some (reproductionEnergy this * (0.9 + r3 * 0.2)),
            p_reproductionRate := Some (reproductionRate this * (0.9 + r4 * 0.2)),
            p_movementCost := Some (movementCost this * (0.9 + r5 * 0.2)),
            p_species := Some (species this)\<rparr>;
          this' = this\<lparr>energy := half (energy this)\<rparr>;
          (offspring, u') = Organism_new offspringAttributes u
      in (this', offspring, g', u'))"

definition Organism_getAttributes :: "'a Organism_scheme \<Rightarrow> OrganismAttributes" where
  "Organism_getAttributes this =
     \<lparr>a_id = org_id this, a_type = org_type this, a_position = position this,
      a_energy = energy this, a_size = org_size this, a_age = age this,
      a_maxAge = maxAge this, a_reproductionEnergy = reproductionEnergy this,
      a_reproductionRate = reproductionRate this, a_movementCost = movementCost this,
      a_isDead = isDead this, a_species = species this,
      a_growthRate = None, a_photosynthesisRate = None, a_waterConsumption = None,
      a_consumerType = None, a_huntingEfficiency = None, a_metabolismRate = None,
      a_diet = None, a_decompositionRate = None, a_nutrientProductionRate = None\<rparr>"

section \<open>Producer (models/Producer.ts)\<close>

record Producer = Organism +
  growthRate :: real
  photosynthesisRate :: real
  waterConsumption :: real

text \<open>
  The constructor spreads the attributes and then sets \<^verbatim>\<open>type\<close>, \<^verbatim>\<open>species\<close> and
  \<^verbatim>\<open>movementCost: 0\<close> before handing them to the base constructor.
\<close>

definition Producer_new :: "PartialAttributes \<Rightarrow> uuids \<Rightarrow> Producer \<times> uuids" where
  "Producer_new attributes u =
     (let (base, u') = Organism_new (attributes\<lparr>
            p_type := Some Producer,
            p_species := Some (or_str (p_species attributes) ''Basic Plant''),
            p_movementCost := Some 0\<rparr>) u
      in (Organism.extend base
            (Producer.fields (or_num (p_growthRate attributes) 0.1)
                             (or_num (p_photosynthesisRate attributes) 0.25)
                             (or_num (p_waterConsumption attributes) 0.08)), u'))"

definition Producer_getTemperatureFactor :: "real \<Rightarrow> real" where
  "Producer_getTemperatureFactor t = max 0.1 (1 - \<bar>t - 25\<bar> / 18)"

definition Producer_getSeasonalFactor :: "real \<Rightarrow> real" where
  "Producer_getSeasonalFactor sf = max 0.3 sf"

definition Producer_update :: "Producer \<Rightarrow> EnvironmentConfig \<Rightarrow> real \<Rightarrow> real \<Rightarrow> Producer" where
  "Producer_update this environmentConfig cellNutrientLevel cellWaterLevel =
     (let this1 = Organism_update this
      in if isDead this1 then this1
         else
           let environmentFactor =
                 (sunlightIntensity environmentConfig / 100) *
                 Producer_getTemperatureFactor (temperature environmentConfig) *
                 (1 - pollutionLevel environmentConfig / 100) *
                 Producer_getSeasonalFactor (seasonalFactor environmentConfig);
               resourceFactor = min (cellNutrientLevel / 100) (cellWaterLevel / 100);
               energyGain = photosynthesisRate this1 * environmentFactor * resourceFactor * 12;
               this2 = this1\<lparr>energy := energy this1 + energyGain\<rparr>
           in if energy this2 > 110 \<and> resourceFactor > 0.4
              then this2\<lparr>org_size := org_size this2 + growthRate this2 * resourceFactor,
                         energy := energy this2 - growthRate this2 * 8\<rparr>
              else this2)"

definition Producer_getAttributes :: "Producer \<Rightarrow> OrganismAttributes" where
  "Producer_getAttributes this =
     (Organism_getAttributes this)\<lparr>
        a_growthRate := Some (growthRate this),
        a_photosynthesisRate := Some (photosynthesisRate this),
        a_waterConsumption := Some (waterConsumption this)\<rparr>"

section \<open>Consumer (models/Consumer.ts)\<close>

record Consumer = Organism +
  consumerType :: ConsumerType
  huntingEfficiency :: real
  metabolismRate :: real
  diet :: "string list"

text \<open>An array is truthy even when empty, so \<^verbatim>\<open>attributes.diet || []\<close> keeps any given diet.\<close>

definition Consumer_new :: "PartialAttributes \<Rightarrow> uuids \<Rightarrow> Consumer \<times> uuids" where
  "Consumer_new attributes u =
     (let (base, u') = Organism_new (attributes\<lparr>
            p_type := Some Consumer,
            p_species := Some (or_str (p_species attributes) ''Basic Consumer'')\<rparr>) u
      in (Organism.extend base
            (Consumer.fields (or_obj (p_consumerType attributes) Herbivore)
                             (or_num (p_huntingEfficiency attributes) 0.5)
                             (or_num (p_metabolismRate attributes) 0.08)
                             (or_obj (p_diet attributes) [])), u'))"

definition Consumer_getTemperatureFactor :: "real \<Rightarrow> real" where
  "Consumer_getTemperatureFactor t = 1 + (\<bar>t - 22\<bar> / 25) * 0.5"

definition Consumer_getSeasonalFactor :: "real \<Rightarrow> real" where
  "Consumer_getSeasonalFactor sf = 1.3 - (sf * 0.4)"

definition Consumer_update :: "Consumer \<Rightarrow> EnvironmentConfig \<Rightarrow> Consumer" where
  "Consumer_update this environmentConfig =
     (let this1 = Organism_update this
      in if isDead this1 then this1
         else
           let baseCost = org_size this1 * metabolismRate this1;
               temperatureFactor = Consumer_getTemperatureFactor (temperature environmentConfig);
               seasonalFactor' = Consumer_getSeasonalFactor (seasonalFactor environmentConfig);
               energyCost = baseCost * temperatureFactor * seasonalFactor'
           in this1\<lparr>energy := energy this1 - energyCost\<rparr>)"

text \<open>
  The test \<^verbatim>\<open>Math.random() < huntingEfficiency / (prey.size / this.size + 0.3)\<close> for the
  draw \<open>r\<close>. With \<^verbatim>\<open>this.size\<close> zero the size factor is \<^verbatim>\<open>Infinity\<close>, \<^verbatim>\<open>-Infinity\<close> or
  \<^verbatim>\<open>NaN\<close>, so the quotient is a zero or \<^verbatim>\<open>NaN\<close>; with a zero denominator the quotient is
  \<^verbatim>\<open>Infinity\<close> for a positive efficiency and \<^verbatim>\<open>-Infinity\<close> or \<^verbatim>\<open>NaN\<close> otherwise.
\<close>

definition huntingSuccess :: "real \<Rightarrow> real \<Rightarrow> real \<Rightarrow> real \<Rightarrow> bool" where
  "huntingSuccess r efficiency preySize thisSize =
     (if thisSize = 0 then preySize \<noteq> 0 \<and> r < 0
      else
        let sizeFactor = preySize / thisSize
        in if sizeFactor + 0.3 = 0 then 0 < efficiency
           else r < efficiency / (sizeFactor + 0.3))"

text \<open>
  \<^verbatim>\<open>eat\<close> mutates both the consumer and the prey: the result is the consumer after the
  call, the prey after the call, the returned number, and the rest of the random stream.
\<close>

definition eat ::
  "Consumer \<Rightarrow> 'b Organism_scheme \<Rightarrow> rng \<Rightarrow> Consumer \<times> 'b Organism_scheme \<times> real \<times> rng" where
  "eat this prey g =
     (if isDead this \<or> isDead prey then (this, prey, 0, g)
      else if huntingSuccess (val (shd g)) (huntingEfficiency this) (org_size prey) (org_size this)
      then
        let energyGain = energy prey * 0.8
        in (this\<lparr>energy := energy this + energyGain\<rparr>, die prey, energyGain, stl g)
      else (this\<lparr>energy := energy this - movementCost this * 1.5\<rparr>, prey, 0, stl g))"

definition canEat :: "Consumer \<Rightarrow> OrganismAttributes \<Rightarrow> bool" where
  "canEat this organism =
     (if consumerType this = Herbivore then a_type organism = Producer
      else if consumerType this = Carnivore then a_type organism = Consumer
      else a_type organism = Producer \<or> a_type organism = Consumer)"

definition Consumer_getAttributes :: "Consumer \<Rightarrow> OrganismAttributes" where
  "Consumer_getAttributes this =
     (Organism_getAttributes this)\<lparr>
        a_consumerType := Some (consumerType this),
        a_huntingEfficiency := Some (huntingEfficiency this),
        a_metabolismRate := Some (metabolismRate this),
        a_diet := Some (diet this)\<rparr>"

section \<open>Decomposer (models/Decomposer.ts)\<close>

record Decomposer = Organism +
  decompositionRate :: real
  nutrientProductionRate :: real

definition Decomposer_new :: "PartialAttributes \<Rightarrow> uuids \<Rightarrow> Decomposer \<times> uuids" where
  "Decomposer_new attributes u =
     (let (base, u') = Organism_new (attributes\<lparr>
            p_type := Some Decomposer,
            p_species := Some (or_str (p_species attributes) ''Basic Decomposer'')\<rparr>) u
      in (Organism.extend base
            (Decomposer.fields (or_num (p_decompositionRate attributes) 0.35)
                               (or_num (p_nutrientProductionRate attributes) 0.25)), u'))"

definition Decomposer_getTemperatureFactor :: "real \<Rightarrow> real" where
  "Decomposer_getTemperatureFactor t =
     (if t < 0 then 0.2
      else if t > 40 then 0.6
      else if t \<ge> 15 \<and> t \<le> 35 then 1.0
      else if t < 15 then 0.2 + (t / 15) * 0.8
      else 1.0 - ((t - 35) / 10) * 0.4)"

text \<open>The result is the decomposer after the call and \<^verbatim>\<open>nutrientsProduced\<close>.\<close>

definition Decomposer_update :: "Decomposer \<Rightarrow> EnvironmentConfig \<Rightarrow> nat \<Rightarrow> Decomposer \<times> real" where
  "Decomposer_update this environmentConfig deadOrganismCount =
     (let this1 = Organism_update this
      in if isDead this1 then (this1, 0)
         else
           let deadMatterFactor = min 1 (real deadOrganismCount / 4);
               moistureFactor = max 0.3 (rainfall environmentConfig / 100);
               temperatureFactor = Decomposer_getTemperatureFactor (temperature environmentConfig);
               decompositionEfficiency =
                 decompositionRate this1 * deadMatterFactor * moistureFactor * temperatureFactor;
               energyGain = decompositionEfficiency * 12 * real deadOrganismCount;
               this2 = this1\<lparr>energy := energy this1 + energyGain\<rparr>;
               nutrientsProduced =
                 nutrientProductionRate this2 * decompositionEfficiency * real deadOrganismCount
           in if energy this2 > 130 \<and> deadMatterFactor > 0.25
              then (this2\<lparr>org_size := org_size this2 + 0.06 * deadMatterFactor,
                          energy := energy this2 - 4\<rparr>, nutrientsProduced)
              else (this2, nutrientsProduced))"

text \<open>
  \<^verbatim>\<open>decompose\<close> reads only the size of the dead organism; its one caller passes the
  attributes object of the table.
\<close>

definition decompose :: "Decomposer \<Rightarrow> OrganismAttributes \<Rightarrow> Decomposer \<times> real" where
  "decompose this deadOrganism =
     (if isDead this then (this, 0)
      else
        let energyGain = a_size deadOrganism * 6 * decompositionRate this
        in (this\<lparr>energy := energy this + energyGain\<rparr>,
            a_size deadOrganism * nutrientProductionRate this))"

definition Decomposer_getAttributes :: "Decomposer \<Rightarrow> OrganismAttributes" where
  "Decomposer_getAttributes this =
     (Organism_getAttributes this)\<lparr>
        a_decompositionRate := Some (decompositionRate this),
        a_nutrientProductionRate := Some (nutrientProductionRate this)\<rparr>"

section \<open>Grid (models/Grid.ts)\<close>

record Grid =
  grid_width :: int
  grid_height :: int
  cells :: "Cell list list"

text \<open>
  \<^verbatim>\<open>this.cells[y][x]\<close>. The constructor builds \<^verbatim>\<open>height\<close> rows of \<^verbatim>\<open>width\<close> cells and
  nothing changes that shape, so every access below, made inside the bounds, finds its
  cell.
\<close>

definition cell_at :: "Grid \<Rightarrow> int \<Rightarrow> int \<Rightarrow> Cell" where
  "cell_at this x' y' = cells this ! nat y' ! nat x'"

definition set_cell :: "Grid \<Rightarrow> int \<Rightarrow> int \<Rightarrow> Cell \<Rightarrow> Grid" where
  "set_cell this x' y' c =
     this\<lparr>cells := (cells this)[nat y' := (cells this ! nat y')[nat x' := c]]\<rparr>"

text \<open>Running a stochastic function over a list, left to right.\<close>

fun map_rng :: "('a \<Rightarrow> rng \<Rightarrow> 'b \<times> rng) \<Rightarrow> 'a list \<Rightarrow> rng \<Rightarrow> 'b list \<times> rng" where
  "map_rng f [] g = ([], g)"
| "map_rng f (a # as) g =
     (let (b, g1) = f a g; (bs, g2) = map_rng f as g1 in (b # bs, g2))"

text \<open>
  One of the three hills of \<^verbatim>\<open>initializeGrid\<close>: three draws for its centre and radius,
  and a fourth for its height when the cell lies on it.
\<close>

definition hill :: "int \<Rightarrow> int \<Rightarrow> int \<Rightarrow> int \<Rightarrow> real \<Rightarrow> rng \<Rightarrow> real \<times> rng" where
  "hill w h x' y' cellHeight g =
     (let hillX = (real_of_int w * 0.2) + (val (shd g) * real_of_int w * 0.6);
          hillY = (real_of_int h * 0.2) + (val (shd (stl g)) * real_of_int h * 0.6);
          hillRadius = 3 + val (shd (stl (stl g))) * 5;
          g3 = stl (stl (stl g));
          distanceFromHill = sqrt ((real_of_int x' - hillX)\<^sup>2 + (real_of_int y' - hillY)\<^sup>2)
      in if distanceFromHill < hillRadius
         then
           let hillElevationFactor = 1 - (distanceFromHill / hillRadius)
           in (max cellHeight (hillElevationFactor * (0.8 + val (shd g3) * 1.2)), stl g3)
         else (cellHeight, g3))"

definition initializeCell :: "int \<Rightarrow> int \<Rightarrow> EnvironmentConfig \<Rightarrow> int \<Rightarrow> int \<Rightarrow> rng \<Rightarrow> Cell \<times> rng" where
  "initializeCell w h environmentConfig y' x' g =
     (let distanceFromCenter =
            sqrt ((real_of_int x' - real_of_int w / 2)\<^sup>2 + (real_of_int y' - real_of_int h / 2)\<^sup>2);
          normalizedDistance =
            distanceFromCenter / sqrt ((real_of_int w / 2)\<^sup>2 + (real_of_int h / 2)\<^sup>2);
          centerX = real_of_int w / 2;
          centerY = real_of_int h / 2;
          islandRadius = real_of_int (min w h) * 0.25;
          distanceFromIslandCenter =
            sqrt ((real_of_int x' - centerX)\<^sup>2 + (real_of_int y' - centerY)\<^sup>2);
          cellHeight0 =
            (if distanceFromIslandCenter < islandRadius
             then max 0 ((1 - (distanceFromIslandCenter / islandRadius)) * 2.5)
             else 0);
          (cellHeight1, g1) = hill w h x' y' cellHeight0 g;
          (cellHeight2, g2) = hill w h x' y' cellHeight1 g1;
          (cellHeight3, g3) = hill w h x' y' cellHeight2 g2;
          cellHeight = max 0 (cellHeight3 + (val (shd g3) - 0.5) * 0.3);
          baseNutrients = 50 + val (shd (stl g3)) * 50;
          elevationNutrientPenalty = cellHeight * 15;
          nutrientVariation = 1 - normalizedDistance * 0.3;
          baseWater = rainfall environmentConfig * 0.8 + val (shd (stl (stl g3))) * 20;
          elevationWaterPenalty = cellHeight * 25;
          waterVariation = 1 - normalizedDistance * 0.2;
          finalNutrients = max 10 ((baseNutrients - elevationNutrientPenalty) * nutrientVariation);
          finalWater = max 5 ((baseWater - elevationWaterPenalty) * waterVariation);
          r7 = val (shd (stl (stl (stl g3))));
          r8 = val (shd (stl (stl (stl (stl g3)))))
      in (\<lparr>cell_x = x', cell_y = y', cell_height = cellHeight,
           cell_nutrientLevel = finalNutrients, waterLevel = finalWater, organisms = [],
           cell_temperature = temperature environmentConfig + (r7 * 4 - 2),
           cell_pollutionLevel = pollutionLevel environmentConfig * (0.8 + r8 * 0.4)\<rparr>,
          stl (stl (stl (stl (stl g3))))))"

definition initializeGrid :: "int \<Rightarrow> int \<Rightarrow> EnvironmentConfig \<Rightarrow> rng \<Rightarrow> Cell list list \<times> rng" where
  "initializeGrid w h environmentConfig g =
     map_rng (\<lambda>y'. map_rng (initializeCell w h environmentConfig y') [0..w - 1]) [0..h - 1] g"

definition Grid_new :: "int \<Rightarrow> int \<Rightarrow> EnvironmentConfig \<Rightarrow> rng \<Rightarrow> Grid \<times> rng" where
  "Grid_new w h environmentConfig g =
     (let (cs, g') = initializeGrid w h environmentConfig g
      in (\<lparr>grid_width = w, grid_height = h, cells = cs\<rparr>, g'))"

definition getCell :: "Grid \<Rightarrow> Position \<Rightarrow> Cell option" where
  "getCell this pos =
     (if pos_x pos \<ge> 0 \<and> pos_x pos < grid_width this \<and>
         pos_y pos \<ge> 0 \<and> pos_y pos < grid_height this
      then Some (cell_at this (pos_x pos) (pos_y pos))
      else None)"

text \<open>The mutating methods return their result together with the grid after the call.\<close>

definition addOrganism :: "Grid \<Rightarrow> OrganismAttributes \<Rightarrow> bool \<times> Grid" where
  "addOrganism this organism =
     (case getCell this (a_position organism) of
        Some cell \<Rightarrow>
          (True, set_cell this (pos_x (a_position organism)) (pos_y (a_position organism))
                   (cell\<lparr>organisms := organisms cell @ [a_id organism]\<rparr>))
      | None \<Rightarrow> (False, this))"

text \<open>\<^verbatim>\<open>indexOf\<close> and \<^verbatim>\<open>splice(index, 1)\<close> remove the first occurrence.\<close>

definition removeOrganism :: "Grid \<Rightarrow> string \<Rightarrow> Position \<Rightarrow> bool \<times> Grid" where
  "removeOrganism this organismId pos =
     (case getCell this pos of
        Some cell \<Rightarrow>
          if organismId \<in> set (organisms cell)
          then (True, set_cell this (pos_x pos) (pos_y pos)
                        (cell\<lparr>organisms := remove1 organismId (organisms cell)\<rparr>))
          else (False, this)
      | None \<Rightarrow> (False, this))"

definition moveOrganism :: "Grid \<Rightarrow> string \<Rightarrow> Position \<Rightarrow> Position \<Rightarrow> bool \<times> Grid" where
  "moveOrganism this organismId oldPosition newPosition =
     (if pos_x newPosition < 0 \<or> pos_x newPosition \<ge> grid_width this \<or>
         pos_y newPosition < 0 \<or> pos_y newPosition \<ge> grid_height this
      then (False, this)
      else
        let (removed, this1) = removeOrganism this organismId oldPosition
        in if \<not> removed then (False, this1)
           else
             case getCell this1 newPosition of
               Some newCell \<Rightarrow>
                 (True, set_cell this1 (pos_x newPosition) (pos_y newPosition)
                          (newCell\<lparr>organisms := organisms newCell @ [organismId]\<rparr>))
             | None \<Rightarrow> (False, this1))"

text \<open>
  \<^verbatim>\<open>updateEnvironment\<close> walks the cells row by row and updates them in place, so the
  nutrient diffusion of a cell reads neighbours of which some are already updated.
\<close>

definition neighbourFlow :: "Grid \<Rightarrow> Cell \<Rightarrow> Position \<Rightarrow> real \<times> nat \<Rightarrow> real \<times> nat" where
  "neighbourFlow this cell neighbor acc =
     (case getCell this neighbor of
        Some neighborCell \<Rightarrow>
          let heightDifference = cell_height cell - cell_height neighborCell;
              flowModifier = (if heightDifference > 0 then 1.5 else 0.7);
              nutrientDifference =
                (cell_nutrientLevel neighborCell - cell_nutrientLevel cell) * flowModifier
          in (fst acc + nutrientDifference, Suc (snd acc))
      | None \<Rightarrow> acc)"

definition newWaterLevel :: "EnvironmentConfig \<Rightarrow> Cell \<Rightarrow> real" where
  "newWaterLevel environmentConfig cell =
     (let elevationFactor = 1 + cell_height cell * 0.3;
          drainageFactor = min 1 (cell_height cell * 0.4);
          baseEvaporationRate = 0.08 * (1 + (temperature environmentConfig - 20) / 15);
          elevationEvaporationRate = baseEvaporationRate * elevationFactor;
          elevationRainfallReduction = min 0.7 (cell_height cell * 0.2);
          effectiveRainfall = rainfall environmentConfig * (1 - elevationRainfallReduction);
          rainAddition = effectiveRainfall * 0.15 * seasonalFactor environmentConfig;
          drainageAmount = waterLevel cell * drainageFactor * 0.1;
          newWaterLevel0 =
            waterLevel cell * (1 - elevationEvaporationRate) + rainAddition - drainageAmount;
          maxWaterLevel = max 20 (100 - (cell_height cell * 30))
      in max 0 (min maxWaterLevel newWaterLevel0))"

definition diffuseNutrients :: "Grid \<Rightarrow> int \<Rightarrow> int \<Rightarrow> Cell \<Rightarrow> Cell" where
  "diffuseNutrients this x' y' cell =
     (let neighbors = [\<lparr>pos_x = x' - 1, pos_y = y'\<rparr>, \<lparr>pos_x = x' + 1, pos_y = y'\<rparr>,
                       \<lparr>pos_x = x', pos_y = y' - 1\<rparr>, \<lparr>pos_x = x', pos_y = y' + 1\<rparr>];
          (nutrientDiffusion, validNeighborCount) =
            fold (neighbourFlow this cell) neighbors (0, 0)
      in if validNeighborCount > 0
         then cell\<lparr>cell_nutrientLevel := cell_nutrientLevel cell +
                      nutrientDiffusion * 0.01 / real validNeighborCount\<rparr>
         else cell)"

definition newTemperature :: "EnvironmentConfig \<Rightarrow> Cell \<Rightarrow> real" where
  "newTemperature environmentConfig cell =
     (let tempAdjustmentRate = 0.2;
          elevationTempReduction = cell_height cell * 2;
          targetTemperature = temperature environmentConfig - elevationTempReduction
      in cell_temperature cell * (1 - tempAdjustmentRate) + targetTemperature * tempAdjustmentRate)"

definition newPollution :: "EnvironmentConfig \<Rightarrow> Cell \<Rightarrow> real" where
  "newPollution environmentConfig cell =
     (let pollutionDecayRate = 0.01;
          elevationPollutionReduction = cell_height cell * 0.1;
          targetPollution = max 0 (pollutionLevel environmentConfig - elevationPollutionReduction)
      in max 0 (cell_pollutionLevel cell * (1 - pollutionDecayRate) + targetPollution * 0.02))"

text \<open>
  The body of the two loops of \<^verbatim>\<open>updateEnvironment\<close> for the cell at \<open>xy\<close>: water, then
  nutrients, then temperature, then pollution, each assigned to the cell in place.
\<close>

definition updateCellEnvironment :: "EnvironmentConfig \<Rightarrow> int \<times> int \<Rightarrow> Grid \<Rightarrow> Grid" where
  "updateCellEnvironment environmentConfig xy this =
     (let x' = fst xy; y' = snd xy;
          cell = cell_at this x' y';
          cell1 = cell\<lparr>waterLevel := newWaterLevel environmentConfig cell\<rparr>;
          cell2 = diffuseNutrients this x' y' cell1;
          cell3 = cell2\<lparr>cell_temperature := newTemperature environmentConfig cell2\<rparr>;
          cell4 = cell3\<lparr>cell_pollutionLevel := newPollution environmentConfig cell3\<rparr>
      in set_cell this x' y' cell4)"

text \<open>The cells of the rectangle, row by row, as the nested \<^verbatim>\<open>for\<close> loops visit them.\<close>

definition rect :: "int \<Rightarrow> int \<Rightarrow> int \<Rightarrow> int \<Rightarrow> (int \<times> int) list" where
  "rect x0 x1 y0 y1 = concat (map (\<lambda>y'. map (\<lambda>x'. (x', y')) [x0..x1]) [y0..y1])"

definition updateEnvironment :: "Grid \<Rightarrow> EnvironmentConfig \<Rightarrow> Grid" where
  "updateEnvironment this environmentConfig =
     fold (updateCellEnvironment environmentConfig)
       (rect 0 (grid_width this - 1) 0 (grid_height this - 1)) this"

definition disturbCell :: "DisturbanceType \<Rightarrow> real \<Rightarrow> Cell \<Rightarrow> Cell" where
  "disturbCell ty inten cell =
     (let elevationResistance = 1 - min 0.5 (cell_height cell * 0.2);
          effectiveIntensity = inten * elevationResistance
      in case ty of
           Fire \<Rightarrow>
             let fireIntensity = (if cell_height cell > 1 then inten * 1.3 else effectiveIntensity)
             in cell\<lparr>cell_nutrientLevel := cell_nutrientLevel cell * (1 - 0.2 * fireIntensity),
                     waterLevel := waterLevel cell * (1 - 0.8 * fireIntensity),
                     cell_temperature := cell_temperature cell + 20 * fireIntensity\<rparr>
         | Drought \<Rightarrow>
             let droughtIntensity =
                   (if cell_height cell > 0.5 then inten * 1.4 else effectiveIntensity)
             in cell\<lparr>waterLevel := waterLevel cell * (1 - 0.7 * droughtIntensity),
                     cell_temperature := cell_temperature cell + 5 * droughtIntensity\<rparr>
         | Flood \<Rightarrow>
             let floodIntensity =
                   (if cell_height cell < 0.5 then inten * 1.5 else effectiveIntensity * 0.3)
             in cell\<lparr>waterLevel := min 100 (waterLevel cell + 40 * floodIntensity),
                     cell_nutrientLevel := cell_nutrientLevel cell * (1 - 0.3 * floodIntensity)\<rparr>
         | Disease \<Rightarrow> cell
         | HumanActivity \<Rightarrow>
             let humanIntensity =
                   (if cell_height cell < 1 then inten * 1.2 else effectiveIntensity * 0.6)
             in cell\<lparr>cell_nutrientLevel := cell_nutrientLevel cell * (1 - 0.4 * humanIntensity),
                     cell_pollutionLevel :=
                       min 100 (cell_pollutionLevel cell + 30 * humanIntensity)\<rparr>
         | NoDisturbance \<Rightarrow> cell)"

definition applyDisturbance ::
  "Grid \<Rightarrow> int \<Rightarrow> int \<Rightarrow> int \<Rightarrow> int \<Rightarrow> DisturbanceType \<Rightarrow> real \<Rightarrow> Grid" where
  "applyDisturbance this sx sy ex ey ty inten =
     fold (\<lambda>xy this'. set_cell this' (fst xy) (snd xy)
                        (disturbCell ty inten (cell_at this' (fst xy) (snd xy))))
       (rect (max 0 sx) (min (grid_width this - 1) ex) (max 0 sy) (min (grid_height this - 1) ey))
       this"

definition getNearbyOrganisms :: "Grid \<Rightarrow> Position \<Rightarrow> int \<Rightarrow> string list" where
  "getNearbyOrganisms this pos radius =
     concat (map (\<lambda>xy. organisms (cell_at this (fst xy) (snd xy)))
       (rect (max 0 (pos_x pos - radius)) (min (grid_width this - 1) (pos_x pos + radius))
             (max 0 (pos_y pos - radius)) (min (grid_height this - 1) (pos_y pos + radius))))"

text \<open>
  \<^verbatim>\<open>findAvailablePosition\<close> lists every cell of the neighbourhood as many times as its
  score and picks one entry; the draw is made only when the list is not empty.
\<close>

definition candidatePositions :: "Grid \<Rightarrow> Position \<Rightarrow> int \<Rightarrow> Position list" where
  "candidatePositions this origin maxDistance =
     concat (map (\<lambda>xy.
        let cell = cell_at this (fst xy) (snd xy);
            baseScore = 10 - min 10 (length (organisms cell));
            elevationBonus = (if cell_height cell > 1 then 2 else 0);
            score = baseScore + elevationBonus
        in replicate score \<lparr>pos_x = fst xy, pos_y = snd xy\<rparr>)
       (rect (max 0 (pos_x origin - maxDistance))
             (min (grid_width this - 1) (pos_x origin + maxDistance))
             (max 0 (pos_y origin - maxDistance))
             (min (grid_height this - 1) (pos_y origin + maxDistance))))"

definition findAvailablePosition :: "Grid \<Rightarrow> Position \<Rightarrow> int \<Rightarrow> rng \<Rightarrow> Position option \<times> rng" where
  "findAvailablePosition this origin maxDistance g =
     (let positions = candidatePositions this origin maxDistance
      in if positions = [] then (None, g)
         else (Some (pick positions (shd g)), stl g))"

definition addNutrients :: "Grid \<Rightarrow> Position \<Rightarrow> real \<Rightarrow> Grid" where
  "addNutrients this pos amount =
     (case getCell this pos of
        Some cell \<Rightarrow>
          set_cell this (pos_x pos) (pos_y pos)
            (cell\<lparr>cell_nutrientLevel := min 100 (cell_nutrientLevel cell + amount)\<rparr>)
      | None \<Rightarrow> this)"

section \<open>Environment (models/Environment.ts)\<close>

text \<open>\<^verbatim>\<open>Partial<EnvironmentConfig>\<close>, the first argument of the constructor.\<close>

record PartialEnvironmentConfig =
  pe_temperature :: "real option"
  pe_rainfall :: "real option"
  pe_seasonalFactor :: "real option"
  pe_nutrientLevel :: "real option"
  pe_sunlightIntensity :: "real option"
  pe_width :: "int option"
  pe_height :: "int option"
  pe_pollutionLevel :: "real option"
  pe_season :: "Season option"
  pe_day :: "nat option"

definition no_config :: PartialEnvironmentConfig where
  "no_config = \<lparr>pe_temperature = None, pe_rainfall = None, pe_seasonalFactor = None,
     pe_nutrientLevel = None, pe_sunlightIntensity = None, pe_width = None, pe_height = None,
     pe_pollutionLevel = None, pe_season = None, pe_day = None\<rparr>"

definition config_as_partial :: "EnvironmentConfig \<Rightarrow> PartialEnvironmentConfig" where
  "config_as_partial c =
     \<lparr>pe_temperature = Some (temperature c), pe_rainfall = Some (rainfall c),
      pe_seasonalFactor = Some (seasonalFactor c), pe_nutrientLevel = Some (nutrientLevel c),
      pe_sunlightIntensity = Some (sunlightIntensity c), pe_width = Some (width c),
      pe_height = Some (height c), pe_pollutionLevel = Some (pollutionLevel c),
      pe_season = Some (season c), pe_day = Some (day c)\<rparr>"

text \<open>
  The fields \<^verbatim>\<open>yearLength\<close> and \<^verbatim>\<open>seasonLength\<close> are set by the constructor and never
  assigned again; they are constants here. The day counter starts at 0 and is only ever
  incremented, so it is a natural number.
\<close>

definition yearLength :: nat where
  "yearLength = 120"

definition seasonLength :: nat where
  "seasonLength = yearLength div 4"

record Environment =
  config :: EnvironmentConfig
  env_day :: nat
  disturbances :: "Disturbance list"

definition Environment_new ::
  "PartialEnvironmentConfig \<Rightarrow> SimulationConfig option \<Rightarrow> Environment" where
  "Environment_new cfg simulationConfig =
     \<lparr>config =
        \<lparr>temperature = or_num (pe_temperature cfg) 25,
         rainfall = or_num (pe_rainfall cfg) 50,
         seasonalFactor = or_num (pe_seasonalFactor cfg) 1.0,
         nutrientLevel = or_num (pe_nutrientLevel cfg) 50,
         sunlightIntensity = or_num (pe_sunlightIntensity cfg) 80,
         width = or_int (pe_width cfg) (or_int (map_option gridWidth simulationConfig) 50),
         height = or_int (pe_height cfg) (or_int (map_option gridHeight simulationConfig) 50),
         pollutionLevel = or_num (pe_pollutionLevel cfg) 10,
         season = or_obj (pe_season cfg) Spring,
         day = or_obj (pe_day cfg) 0\<rparr>,
      env_day = 0,
      disturbances = []\<rparr>"

definition seasons :: "Season list" where
  "seasons = [Spring, Summer, Fall, Winter]"

text \<open>Two draws: the jitter of the temperature and of the rainfall.\<close>

definition updateSeasonalFactors :: "nat \<Rightarrow> EnvironmentConfig \<Rightarrow> rng \<Rightarrow> EnvironmentConfig \<times> rng" where
  "updateSeasonalFactors d c g =
     (let dayInSeason = d mod seasonLength;
          seasonProgress = real dayInSeason / real seasonLength;
          c1 = (case season c of
                  Spring \<Rightarrow> c\<lparr>temperature := 15 + 10 * seasonProgress,
                               rainfall := 40 + 20 * seasonProgress,
                               sunlightIntensity := 60 + 20 * seasonProgress,
                               seasonalFactor := 0.7 + 0.3 * seasonProgress\<rparr>
                | Summer \<Rightarrow> c\<lparr>temperature := 25 + 5 * (1 - seasonProgress),
                               rainfall := 60 - 20 * seasonProgress,
                               sunlightIntensity := 80 + 20 * (1 - seasonProgress),
                               seasonalFactor := 1.0\<rparr>
                | Fall \<Rightarrow> c\<lparr>temperature := 25 - 15 * seasonProgress,
                             rainfall := 40 - 10 * seasonProgress,
                             sunlightIntensity := 60 - 20 * seasonProgress,
                             seasonalFactor := 0.7 - 0.2 * seasonProgress\<rparr>
                | Winter \<Rightarrow> c\<lparr>temperature := 10 - 5 * seasonProgress,
                               rainfall := 30 - 10 * (1 - seasonProgress),
                               sunlightIntensity := 40 + 20 * seasonProgress,
                               seasonalFactor := 0.5 + 0.2 * seasonProgress\<rparr>);
          c2 = c1\<lparr>temperature := temperature c1 + ((val (shd g) * 2) - 1)\<rparr>;
          c3 = c2\<lparr>rainfall := rainfall c2 + ((val (shd (stl g)) * 4) - 2)\<rparr>
      in (c3\<lparr>temperature := max (-10) (min 40 (temperature c3)),
              rainfall := max 10 (min 100 (rainfall c3)),
              sunlightIntensity := max 30 (min 100 (sunlightIntensity c3))\<rparr>,
          stl (stl g)))"

text \<open>
  The \<^verbatim>\<open>filter\<close> callback of \<^verbatim>\<open>updateDisturbances\<close> ages every active disturbance and
  keeps it while its age is below its duration.
\<close>

primrec updateDisturbances :: "Disturbance list \<Rightarrow> Disturbance list" where
  "updateDisturbances [] = []"
| "updateDisturbances (disturbance # rest) =
     (if \<not> active disturbance then updateDisturbances rest
      else
        let disturbance1 = disturbance\<lparr>current := current disturbance + 1\<rparr>
        in if current disturbance1 \<ge> duration disturbance1 then updateDisturbances rest
           else disturbance1 # updateDisturbances rest)"

definition addDisturbance ::
  "Environment \<Rightarrow> DisturbanceType \<Rightarrow> real \<Rightarrow> real \<Rightarrow> Area \<Rightarrow> Disturbance \<times> Environment" where
  "addDisturbance this ty inten dur area =
     (let disturbance = \<lparr>d_type = ty, intensity = inten, duration = dur,
                          affectedArea = area, current = 0, active = True\<rparr>;
          c = config this;
          c1 = (case ty of
                  Fire \<Rightarrow> c\<lparr>temperature := temperature c + 5 * inten\<rparr>
                | Drought \<Rightarrow> c\<lparr>rainfall := rainfall c * (1 - 0.3 * inten)\<rparr>
                | Flood \<Rightarrow> c\<lparr>rainfall := rainfall c + 30 * inten\<rparr>
                | HumanActivity \<Rightarrow> c\<lparr>pollutionLevel := pollutionLevel c + 20 * inten\<rparr>
                | _ \<Rightarrow> c);
          c2 = c1\<lparr>temperature := max (-10) (min 45 (temperature c1)),
                  rainfall := max 5 (min 100 (rainfall c1)),
                  pollutionLevel := max 0 (min 100 (pollutionLevel c1))\<rparr>
      in (disturbance, this\<lparr>disturbances := disturbances this @ [disturbance], config := c2\<rparr>))"

definition disturbanceTypes :: "DisturbanceType list" where
  "disturbanceTypes = [Fire, Drought, Flood, Disease, HumanActivity]"

text \<open>Six draws: type, intensity, duration, centre and radius.\<close>

definition generateRandomDisturbance :: "Environment \<Rightarrow> rng \<Rightarrow> Environment \<times> rng" where
  "generateRandomDisturbance this g =
     (let ty = pick disturbanceTypes (shd g);
          inten = 0.2 + val (shd (stl g)) * 0.5;
          dur = 3 + real_of_int \<lfloor>val (shd (stl (stl g))) * 8\<rfloor>;
          w = width (config this);
          h = height (config this);
          centerX = \<lfloor>val (shd (stl (stl (stl g)))) * real_of_int w\<rfloor>;
          centerY = \<lfloor>val (shd (stl (stl (stl (stl g))))) * real_of_int h\<rfloor>;
          radius = \<lfloor>val (shd (stl (stl (stl (stl (stl g)))))) * (real_of_int (min w h) / 6)\<rfloor> + 2;
          area = \<lparr>startX = max 0 (centerX - radius), startY = max 0 (centerY - radius),
                  endX = min (w - 1) (centerX + radius), endY = min (h - 1) (centerY + radius)\<rparr>
      in (snd (addDisturbance this ty inten dur area), stl (stl (stl (stl (stl (stl g)))))))"

definition Environment_update :: "Environment \<Rightarrow> rng \<Rightarrow> Environment \<times> rng" where
  "Environment_update this g =
     (let d = env_day this + 1;
          c1 = (config this)\<lparr>day := d\<rparr>;
          dayInYear = d mod yearLength;
          seasonIndex = dayInYear div seasonLength;
          c2 = c1\<lparr>season := seasons ! seasonIndex\<rparr>;
          (c3, g1) = updateSeasonalFactors d c2 g;
          this1 = this\<lparr>env_day := d, config := c3,
                       disturbances := updateDisturbances (disturbances this)\<rparr>
      in if val (shd g1) < 0.0005 then generateRandomDisturbance this1 (stl g1)
         else (this1, stl g1))"

definition getActiveDisturbances :: "Environment \<Rightarrow> Disturbance list" where
  "getActiveDisturbances this = filter active (disturbances this)"

definition getConfig :: "Environment \<Rightarrow> EnvironmentConfig" where
  "getConfig this = config this"

text \<open>\<open>k\<close> calls of \<^verbatim>\<open>Environment.update()\<close> in a row.\<close>

primrec updates :: "nat \<Rightarrow> Environment \<Rightarrow> rng \<Rightarrow> Environment \<times> rng" where
  "updates 0 this g = (this, g)"
| "updates (Suc k) this g =
     (let (this1, g1) = updates k this g in Environment_update this1 g1)"

text \<open>
  What \<open>k\<close> updates leave of a list of disturbances: the active ones whose age stays
  below their duration, each aged by \<open>k\<close>.
\<close>

definition survivors :: "nat \<Rightarrow> Disturbance list \<Rightarrow> Disturbance list" where
  "survivors k ds =
     map (\<lambda>x. x\<lparr>current := current x + real k\<rparr>)
       (filter (\<lambda>x. active x \<and> current x + real k < duration x) ds)"

section \<open>Statistics of a simulation step (hooks/useSimulation.ts)\<close>

text \<open>
  The series of the statistics. A stability index may be \<^verbatim>\<open>NaN\<close>, which is \<open>None\<close> here.
\<close>

record SimulationStatistics =
  producers :: "nat list"
  herbivores :: "nat list"
  carnivores :: "nat list"
  decomposers :: "nat list"
  biodiversityIndex :: "real list"
  averageTemperature :: "real list"
  averageRainfall :: "real list"
  totalEnergy :: "real list"
  totalNutrients :: "real list"
  stabilityIndex :: "real option list"

definition EMPTY_STATS :: SimulationStatistics where
  "EMPTY_STATS = \<lparr>producers = [], herbivores = [], carnivores = [], decomposers = [],
     biodiversityIndex = [], averageTemperature = [], averageRainfall = [], totalEnergy = [],
     totalNutrients = [], stabilityIndex = []\<rparr>"

text \<open>\<^verbatim>\<open>xs.slice(-n)\<close>: the last \<open>n\<close> elements, or all of them when there are fewer.\<close>

definition slice_last :: "nat \<Rightarrow> 'a list \<Rightarrow> 'a list" where
  "slice_last n xs = drop (length xs - n) xs"

text \<open>
  The stability index that \<^verbatim>\<open>runCycle\<close> computes from the series as they are before
  the counts of the current step are appended. The mean of the producers is not guarded:
  with a zero mean the quotient is \<^verbatim>\<open>NaN\<close> (or \<^verbatim>\<open>Infinity\<close>), and \<^verbatim>\<open>Math.max(0, NaN)\<close>
  is \<^verbatim>\<open>NaN\<close>. The mean of the herbivores is guarded by \<^verbatim>\<open>avgHerbivores > 0\<close>, which is
  also false for the \<^verbatim>\<open>NaN\<close> of an empty series.
\<close>

definition computeStabilityIndex :: "nat list \<Rightarrow> nat list \<Rightarrow> real option" where
  "computeStabilityIndex producerSeries herbivoreSeries =
     (if length producerSeries > 10
      then
        let recentProducers = slice_last 10 producerSeries;
            avgProducers =
              foldl (\<lambda>sum v. sum + real v) 0 recentProducers / real (length recentProducers);
            deviationProducers =
              foldl (\<lambda>sum v. sum + \<bar>real v - avgProducers\<bar>) 0 recentProducers;
            recentHerbivores = slice_last 10 herbivoreSeries;
            avgHerbivores =
              foldl (\<lambda>sum v. sum + real v) 0 recentHerbivores / real (length recentHerbivores);
            variationHerbivores =
              (if recentHerbivores \<noteq> [] \<and> avgHerbivores > 0
               then foldl (\<lambda>sum v. sum + \<bar>real v - avgHerbivores\<bar>) 0 recentHerbivores /
                    avgHerbivores
               else 0)
        in if avgProducers = 0
           then (if deviationProducers = 0 then None else Some 0)
           else
             let variationProducers = deviationProducers / avgProducers
             in Some (max 0 (1.0 - (variationProducers + variationHerbivores) / 4))
      else Some 1.0)"

text \<open>
  The stability index as the specification words it: 1 with fewer than ten samples,
  and otherwise computed from the mean absolute deviation of the last ten samples
  divided by their mean.
\<close>

definition meanAbsoluteDeviation :: "nat list \<Rightarrow> real" where
  "meanAbsoluteDeviation xs =
     (\<Sum>v\<leftarrow>xs. \<bar>real v - (\<Sum>v\<leftarrow>xs. real v) / real (length xs)\<bar>) / real (length xs)"

definition specifiedStabilityIndex :: "nat list \<Rightarrow> nat list \<Rightarrow> real" where
  "specifiedStabilityIndex producerSeries herbivoreSeries =
     (if length producerSeries < 10 then 1
      else
        let recentProducers = slice_last 10 producerSeries;
            recentHerbivores = slice_last 10 herbivoreSeries;
            meanProducers = (\<Sum>v\<leftarrow>recentProducers. real v) / real (length recentProducers);
            meanHerbivores = (\<Sum>v\<leftarrow>recentHerbivores. real v) / real (length recentHerbivores);
            producerVariation = meanAbsoluteDeviation recentProducers / meanProducers;
            herbivoreVariation =
              (if meanHerbivores > 0
               then meanAbsoluteDeviation recentHerbivores / meanHerbivores else 0)
        in max 0 (1 - (producerVariation + herbivoreVariation) / 4))"

section \<open>The state of the simulation (types.ts, hooks/useSimulation.ts)\<close>

text \<open>
  The organism table is a JavaScript object used as a dictionary; its keys (identifiers,
  none of which is written like an array index) keep their insertion order, which is
  the order of iteration. It is an association list:
  \<open>map_of\<close> reads a key, \<open>AList.update\<close> assigns to a key in place or appends a new key,
  \<open>AList.delete\<close> deletes a key.
\<close>

type_synonym table = "(string \<times> OrganismAttributes) list"

text \<open>
  Two kinds of objects are shared between the state, the snapshots and the hook, and are
  changed in place: the \<^verbatim>\<open>Grid\<close> objects with their cells, and the arrays of the
  statistics. They live in a store, and whoever refers to one holds its address.

  \<^verbatim>\<open>state.grid\<close> is the array of \<^verbatim>\<open>null\<close>s of the first render, which nothing else refers
  to, or \<^verbatim>\<open>grid.cells\<close>, the very array of a \<^verbatim>\<open>Grid\<close> object: what it shows changes with
  every change of that object.
\<close>

datatype StateGrid = Unshared "Cell option list list" | CellsOf nat

text \<open>
  \<^verbatim>\<open>state.statistics\<close> is always a fresh object (\<^verbatim>\<open>{ ...EMPTY_STATS }\<close>,
  \<^verbatim>\<open>{ ...prevState.statistics }\<close>) but the spread copies the references to the ten
  arrays, not the arrays. The ten arrays are created together, replaced together and
  pushed to together, so that they have one address: \<open>statistics\<close> is the address of the
  arrays that the object refers to.
\<close>

record SimulationState =
  st_day :: nat
  st_season :: Season
  environment :: EnvironmentConfig
  grid :: StateGrid
  st_organisms :: table
  disturbance :: "Disturbance option"
  statistics :: nat
  paused :: bool
  cyclesPerSecond :: real

record SavedSimulation =
  saved_name :: string
  saved_date :: string
  saved_state :: SimulationState
  saved_config :: SimulationConfig

text \<open>
  What the hook \<^verbatim>\<open>useSimulation\<close> keeps between calls: its React state, and the two
  references to the \<^verbatim>\<open>Grid\<close> and the \<^verbatim>\<open>Environment\<close>, which are \<^verbatim>\<open>null\<close> until the first
  \<^verbatim>\<open>initialize\<close>. The \<^verbatim>\<open>Environment\<close> has one owner and is a value; \<open>gridRef\<close> is the
  address of a \<^verbatim>\<open>Grid\<close>. After an extinction \<^verbatim>\<open>checkForExtinction\<close> schedules, with
  \<^verbatim>\<open>setTimeout\<close>, an \<^verbatim>\<open>initialize\<close> with a new random configuration: \<open>pendingRestart\<close>
  holds that configuration until the timer fires. A state update is applied as soon
  as it is requested, and one step runs to its end before the next one starts.

  The store: \<open>gridObjects\<close> holds the \<^verbatim>\<open>Grid\<close> objects constructed so far, at the addresses
  below \<open>gridCount\<close>, and \<open>statisticsArrays\<close> the arrays of statistics, at the addresses
  below \<open>statisticsCount\<close>. Address 0 of \<open>statisticsArrays\<close> holds the arrays of the
  module-level constant \<^verbatim>\<open>EMPTY_STATS\<close>. An address that is not yet in use holds an
  empty object.
\<close>

record Simulation =
  sim_config :: SimulationConfig
  autoRestartOnExtinction :: bool
  extinctionCount :: nat
  lastExtinctionDay :: nat
  state :: SimulationState
  gridRef :: "nat option"
  environmentRef :: "Environment option"
  pendingRestart :: "SimulationConfig option"
  gridObjects :: "nat \<Rightarrow> Grid"
  gridCount :: nat
  statisticsArrays :: "nat \<Rightarrow> SimulationStatistics"
  statisticsCount :: nat

text \<open>\<^verbatim>\<open>gridRef.current\<close>, and what \<^verbatim>\<open>state.grid\<close> and \<^verbatim>\<open>state.statistics\<close> show.\<close>

definition currentGrid :: "Simulation \<Rightarrow> Grid option" where
  "currentGrid sim = map_option (gridObjects sim) (gridRef sim)"

definition stateGrid :: "Simulation \<Rightarrow> Cell option list list" where
  "stateGrid sim =
     (case grid (state sim) of
        Unshared rows \<Rightarrow> rows
      | CellsOf address \<Rightarrow> map (map Some) (cells (gridObjects sim address)))"

definition stateStatistics :: "Simulation \<Rightarrow> SimulationStatistics" where
  "stateStatistics sim = statisticsArrays sim (statistics (state sim))"

definition DEFAULT_CONFIG :: SimulationConfig where
  "DEFAULT_CONFIG = \<lparr>gridWidth = 30, gridHeight = 30, initialProducers = 80,
     initialHerbivores = 25, initialCarnivores = 8, initialDecomposers = 100,
     simulationSpeed = 1, initialTemperature = 25, initialRainfall = 30,
     enableEvolution = True, enableDisturbances = False\<rparr>"

text \<open>Nine draws, in the order of the object literal.\<close>

definition generateRandomConfig :: "rng \<Rightarrow> SimulationConfig \<times> rng" where
  "generateRandomConfig g =
     (\<lparr>gridWidth = 25 + \<lfloor>val (g !! 0) * 15\<rfloor>,
       gridHeight = 25 + \<lfloor>val (g !! 1) * 15\<rfloor>,
       initialProducers = 60 + \<lfloor>val (g !! 2) * 40\<rfloor>,
       initialHerbivores = 15 + \<lfloor>val (g !! 3) * 20\<rfloor>,
       initialCarnivores = 5 + \<lfloor>val (g !! 4) * 10\<rfloor>,
       initialDecomposers = 50 + \<lfloor>val (g !! 5) * 20\<rfloor>,
       simulationSpeed = 1,
       initialTemperature = 20 + val (g !! 6) * 10,
       initialRainfall = 40 + val (g !! 7) * 40,
       enableEvolution = True,
       enableDisturbances = (val (g !! 8) > 0.5)\<rparr>, sdrop 9 g)"

text \<open>
  The errors that the hook can throw. \<^verbatim>\<open>Array(n).fill(v)\<close> for an integer \<open>n\<close>:
  \<^verbatim>\<open>Array(n)\<close> throws a \<^verbatim>\<open>RangeError\<close> unless \<open>n\<close> is a valid array length, from 0 to
  \<open>2\<^sup>3\<^sup>2 - 1\<close>.
\<close>

datatype error = RangeError | TypeError

definition Array_fill :: "int \<Rightarrow> 'a \<Rightarrow> error + 'a list" where
  "Array_fill n v = (if 0 \<le> n \<and> n < 2 ^ 32 then Inr (replicate (nat n) v) else Inl RangeError)"

text \<open>
  The initial value of \<^verbatim>\<open>state.grid\<close>,
  \<^verbatim>\<open>Array(config.gridHeight).fill(null).map(() => Array(config.gridWidth).fill(null))\<close>.
  The callback of \<^verbatim>\<open>map\<close> runs once for every row, and not at all without rows.
\<close>

definition initialGrid :: "SimulationConfig \<Rightarrow> error + Cell option list list" where
  "initialGrid cfg =
     (case Array_fill (gridHeight cfg) () of
        Inl e \<Rightarrow> Inl e
      | Inr rows \<Rightarrow>
          if rows = [] then Inr []
          else (case Array_fill (gridWidth cfg) None of
                  Inl e \<Rightarrow> Inl e
                | Inr row \<Rightarrow> Inr (map (\<lambda>_. row) rows)))"

text \<open>
  The first call of the hook, for the configuration it is called with (the defaults
  merged with the caller's): the state before the first \<^verbatim>\<open>initialize\<close>, or the error
  thrown while that state is built.
\<close>

definition useSimulation :: "SimulationConfig \<Rightarrow> error + Simulation" where
  "useSimulation cfg =
     (case initialGrid cfg of
        Inl e \<Rightarrow> Inl e
      | Inr rows \<Rightarrow>
          Inr \<lparr>sim_config = cfg, autoRestartOnExtinction = True, extinctionCount = 0,
               lastExtinctionDay = 0,
               state = \<lparr>st_day = 0, st_season = Spring,
                 environment = \<lparr>temperature = initialTemperature cfg,
                   rainfall = initialRainfall cfg,
                   seasonalFactor = 1.0, nutrientLevel = 50, sunlightIntensity = 80,
                   width = gridWidth cfg, height = gridHeight cfg, pollutionLevel = 10,
                   season = Spring, day = 0\<rparr>,
                 grid = Unshared rows,
                 st_organisms = [], disturbance = None, statistics = 0, paused = True,
                 cyclesPerSecond = simulationSpeed cfg\<rparr>,
               gridRef = None, environmentRef = None, pendingRestart = None,
               gridObjects = (\<lambda>_. \<lparr>grid_width = 0, grid_height = 0, cells = []\<rparr>),
               gridCount = 0,
               statisticsArrays = (\<lambda>_. EMPTY_STATS), statisticsCount = 1\<rparr>)"

text \<open>
  Every later call of the hook (React calls it again after every change of its state)
  evaluates the expression for the initial value of the state again, with the
  configuration of that moment, and discards the value.
\<close>

definition rerender :: "Simulation \<Rightarrow> error + Simulation" where
  "rerender sim = (case initialGrid (sim_config sim) of Inl e \<Rightarrow> Inl e | Inr _ \<Rightarrow> Inr sim)"

section \<open>initialize (hooks/useSimulation.ts)\<close>

text \<open>What the four population loops of \<^verbatim>\<open>initialize\<close> build, and the sources they use.\<close>

record Population =
  pop_organisms :: table
  pop_grid :: Grid
  pop_rng :: rng
  pop_uuids :: uuids

definition randomPosition :: "SimulationConfig \<Rightarrow> rng \<Rightarrow> Position" where
  "randomPosition cfg g =
     \<lparr>pos_x = \<lfloor>val (g !! 0) * real_of_int (gridWidth cfg)\<rfloor>,
      pos_y = \<lfloor>val (g !! 1) * real_of_int (gridHeight cfg)\<rfloor>\<rparr>"

definition register :: "OrganismAttributes \<Rightarrow> Population \<Rightarrow> Population" where
  "register attrs pop =
     pop\<lparr>pop_organisms := AList.update (a_id attrs) attrs (pop_organisms pop),
         pop_grid := snd (addOrganism (pop_grid pop) attrs)\<rparr>"

definition addProducer :: "SimulationConfig \<Rightarrow> Population \<Rightarrow> Population" where
  "addProducer cfg pop =
     (let g = pop_rng pop;
          (producer, u') = Producer_new (no_attributes\<lparr>
             p_position := Some (randomPosition cfg g),
             p_energy := Some (120 + val (g !! 2) * 40),
             p_size := Some (0.6 + val (g !! 3) * 1.2),
             p_maxAge := Some (90 + real_of_int \<lfloor>val (g !! 4) * 30\<rfloor>),
             p_reproductionRate := Some (0.12 + val (g !! 5) * 0.15),
             p_reproductionEnergy := Some (110 + val (g !! 6) * 50),
             p_species := Some ''Basic Plant'',
             p_growthRate := Some (0.06 + val (g !! 7) * 0.08),
             p_photosynthesisRate := Some (0.15 + val (g !! 8) * 0.15)\<rparr>) (pop_uuids pop)
      in register (Producer_getAttributes producer)
           (pop\<lparr>pop_rng := sdrop 9 g, pop_uuids := u'\<rparr>))"

definition addHerbivore :: "SimulationConfig \<Rightarrow> Population \<Rightarrow> Population" where
  "addHerbivore cfg pop =
     (let g = pop_rng pop;
          (consumer, u') = Consumer_new (no_attributes\<lparr>
             p_position := Some (randomPosition cfg g),
             p_energy := Some (180 + val (g !! 2) * 40),
             p_size := Some (1.0 + val (g !! 3) * 0.8),
             p_maxAge := Some (70 + real_of_int \<lfloor>val (g !! 4) * 25\<rfloor>),
             p_reproductionRate := Some (0.06 + val (g !! 5) * 0.12),
             p_reproductionEnergy := Some (160 + val (g !! 6) * 30),
             p_species := Some ''Herbivore'',
             p_consumerType := Some Herbivore,
             p_huntingEfficiency := Some (0.5 + val (g !! 7) * 0.25),
             p_metabolismRate := Some (0.06 + val (g !! 8) * 0.03),
             p_movementCost := Some (0.6 + val (g !! 9) * 0.3),
             p_diet := Some [''Basic Plant'']\<rparr>) (pop_uuids pop)
      in register (Consumer_getAttributes consumer)
           (pop\<lparr>pop_rng := sdrop 10 g, pop_uuids := u'\<rparr>))"

definition addCarnivore :: "SimulationConfig \<Rightarrow> Population \<Rightarrow> Population" where
  "addCarnivore cfg pop =
     (let g = pop_rng pop;
          (consumer, u') = Consumer_new (no_attributes\<lparr>
             p_position := Some (randomPosition cfg g),
             p_energy := Some (220 + val (g !! 2) * 80),
             p_size := Some (1.8 + val (g !! 3) * 1.5),
             p_maxAge := Some (80 + real_of_int \<lfloor>val (g !! 4) * 30\<rfloor>),
             p_reproductionRate := Some (0.04 + val (g !! 5) * 0.06),
             p_reproductionEnergy := Some (220 + val (g !! 6) * 40),
             p_species := Some ''Carnivore'',
             p_consumerType := Some Carnivore,
             p_huntingEfficiency := Some (0.6 + val (g !! 7) * 0.3),
             p_metabolismRate := Some (0.08 + val (g !! 8) * 0.04),
             p_movementCost := Some (1.0 + val (g !! 9) * 0.4),
             p_diet := Some [''Herbivore'']\<rparr>) (pop_uuids pop)
      in register (Consumer_getAttributes consumer)
           (pop\<lparr>pop_rng := sdrop 10 g, pop_uuids := u'\<rparr>))"

definition addDecomposer :: "SimulationConfig \<Rightarrow> Population \<Rightarrow> Population" where
  "addDecomposer cfg pop =
     (let g = pop_rng pop;
          (decomposer, u') = Decomposer_new (no_attributes\<lparr>
             p_position := Some (randomPosition cfg g),
             p_energy := Some (100 + val (g !! 2) * 30),
             p_size := Some (0.4 + val (g !! 3) * 0.6),
             p_maxAge := Some (75 + real_of_int \<lfloor>val (g !! 4) * 15\<rfloor>),
             p_reproductionRate := Some (0.25 + val (g !! 5) * 0.15),
             p_reproductionEnergy := Some (90 + val (g !! 6) * 40),
             p_species := Some ''Decomposer'',
             p_decompositionRate := Some (0.25 + val (g !! 7) * 0.25),
             p_nutrientProductionRate := Some (0.3 + val (g !! 8) * 0.2),
             p_movementCost := Some (0.2 + val (g !! 9) * 0.2)\<rparr>) (pop_uuids pop)
      in register (Decomposer_getAttributes decomposer)
           (pop\<lparr>pop_rng := sdrop 10 g, pop_uuids := u'\<rparr>))"

text \<open>
  \<^verbatim>\<open>initialize\<close> has no check of its configuration. A loop
  \<^verbatim>\<open>for (let i = 0; i < n; i++)\<close> runs \<open>nat n\<close> times, not at all for a negative \<open>n\<close>.
  The new \<^verbatim>\<open>Grid\<close> gets the next address. The new state refers to the cells of that
  grid, and with \<^verbatim>\<open>{ ...EMPTY_STATS }\<close> to the arrays of \<^verbatim>\<open>EMPTY_STATS\<close> themselves, at
  address 0, whatever earlier steps have pushed into them. The result is the hook after
  the call and the rest of the two sources.
\<close>

definition initialize ::
  "Simulation \<Rightarrow> SimulationConfig option \<Rightarrow> rng \<Rightarrow> uuids \<Rightarrow> Simulation \<times> rng \<times> uuids" where
  "initialize sim newConfig g u =
     (let configToUse = or_obj newConfig (sim_config sim);
          sim1 = (case newConfig of Some c \<Rightarrow> sim\<lparr>sim_config := c\<rparr> | None \<Rightarrow> sim);
          environment' = Environment_new
            (no_config\<lparr>pe_temperature := Some (initialTemperature configToUse),
                        pe_rainfall := Some (initialRainfall configToUse)\<rparr>)
            (Some configToUse);
          (grid', g1) = Grid_new (gridWidth configToUse) (gridHeight configToUse)
                                 (getConfig environment') g;
          pop0 = \<lparr>pop_organisms = [], pop_grid = grid', pop_rng = g1, pop_uuids = u\<rparr>;
          pop1 = (addProducer configToUse ^^ nat (initialProducers configToUse)) pop0;
          pop2 = (addHerbivore configToUse ^^ nat (initialHerbivores configToUse)) pop1;
          pop3 = (addCarnivore configToUse ^^ nat (initialCarnivores configToUse)) pop2;
          pop4 = (addDecomposer configToUse ^^ nat (initialDecomposers configToUse)) pop3;
          address = gridCount sim1
      in (sim1\<lparr>environmentRef := Some environment',
               gridRef := Some address,
               gridObjects := (gridObjects sim1)(address := pop_grid pop4),
               gridCount := address + 1,
               state := \<lparr>st_day = 0, st_season = Spring,
                          environment = getConfig environment',
                          grid = CellsOf address,
                          st_organisms = pop_organisms pop4,
                          disturbance = None, statistics = 0, paused = True,
                          cyclesPerSecond = simulationSpeed configToUse\<rparr>\<rparr>,
          pop_rng pop4, pop_uuids pop4))"

section \<open>runCycle (hooks/useSimulation.ts)\<close>

text \<open>
  The working data of the pass over the organisms: the copy of the table, the ids queued
  for removal, the queued moves (a \<^verbatim>\<open>Map\<close> from id to old and new position), the queued
  offspring, the number of dead organisms seen so far in each cell (the key
  \<^verbatim>\<open>`${x},${y}`\<close> is the pair of coordinates), and the grid and the two sources, which
  the pass uses and changes.
\<close>

record Pass =
  newOrganisms :: table
  deadOrganisms :: "string list"
  positionChanges :: "(string \<times> Position \<times> Position) list"
  newOrganismsToAdd :: "Organism list"
  deadOrganismsCounts :: "int \<times> int \<Rightarrow> nat"
  pass_grid :: Grid
  pass_rng :: rng
  pass_uuids :: uuids

definition cellKey :: "Position \<Rightarrow> int \<times> int" where
  "cellKey pos = (pos_x pos, pos_y pos)"

text \<open>The eight neighbours in the order of the loops over \<^verbatim>\<open>dx\<close> and \<^verbatim>\<open>dy\<close>.\<close>

definition neighbours8 :: "Position \<Rightarrow> Position list" where
  "neighbours8 pos =
     concat (map (\<lambda>dx. concat (map (\<lambda>dy.
        if dx = 0 \<and> dy = 0 then []
        else [\<lparr>pos_x = pos_x pos + dx, pos_y = pos_y pos + dy\<rparr>]) [- 1, 0, 1])) [- 1, 0, 1])"

definition inBounds :: "EnvironmentConfig \<Rightarrow> Position \<Rightarrow> bool" where
  "inBounds environmentConfig newPos =
     (pos_x newPos \<ge> 0 \<and> pos_x newPos < width environmentConfig \<and>
      pos_y newPos \<ge> 0 \<and> pos_y newPos < height environmentConfig)"

text \<open>
  The end of both movement blocks: when there is a valid move, one is drawn, the organism
  moves, and the move is queued under the organism's id.
\<close>

definition moveTo :: "'a Organism_scheme \<Rightarrow> Position list \<Rightarrow> Pass \<Rightarrow> 'a Organism_scheme \<times> Pass" where
  "moveTo this validMoves ps =
     (if validMoves \<noteq> []
      then
        let newPos = pick validMoves (shd (pass_rng ps));
            oldPos = position this;
            this' = move this newPos
        in (this', ps\<lparr>positionChanges :=
                         AList.update (org_id this') (oldPos, newPos) (positionChanges ps),
                       pass_rng := stl (pass_rng ps)\<rparr>)
      else (this, ps))"

definition consumerMove :: "EnvironmentConfig \<Rightarrow> Consumer \<Rightarrow> Pass \<Rightarrow> Consumer \<times> Pass" where
  "consumerMove environmentConfig consumer ps =
     (let r = val (shd (pass_rng ps));
          ps1 = ps\<lparr>pass_rng := stl (pass_rng ps)\<rparr>
      in if r < 0.8
         then moveTo consumer (filter (inBounds environmentConfig) (neighbours8 (position consumer))) ps1
         else (consumer, ps1))"

definition decomposerMove :: "EnvironmentConfig \<Rightarrow> Decomposer \<Rightarrow> Pass \<Rightarrow> Decomposer \<times> Pass" where
  "decomposerMove environmentConfig decomposer ps =
     (let r = val (shd (pass_rng ps));
          ps1 = ps\<lparr>pass_rng := stl (pass_rng ps)\<rparr>
      in if r < 0.4
         then moveTo decomposer
                (concat (map (\<lambda>newPos. replicate (deadOrganismsCounts ps (cellKey newPos) + 1) newPos)
                   (filter (inBounds environmentConfig) (neighbours8 (position decomposer))))) ps1
         else (decomposer, ps1))"

text \<open>
  The reproduction block, which the three kinds share up to the search radius: the
  offspring gets the position found in the grid and is queued.
\<close>

definition tryReproduce :: "'a Organism_scheme \<Rightarrow> int \<Rightarrow> Pass \<Rightarrow> 'a Organism_scheme \<times> Pass" where
  "tryReproduce this radius ps =
     (let (can, g1) = canReproduce this (pass_rng ps)
      in if can
         then
           let (offspringPosition, g2) =
                 findAvailablePosition (pass_grid ps) (position this) radius g1
           in case offspringPosition of
                Some pos \<Rightarrow>
                  let (this', offspring, g3, u') = reproduce this g2 (pass_uuids ps)
                  in (this', ps\<lparr>newOrganismsToAdd :=
                                    newOrganismsToAdd ps @ [offspring\<lparr>position := pos\<rparr>],
                                  pass_rng := g3, pass_uuids := u'\<rparr>)
              | None \<Rightarrow> (this, ps\<lparr>pass_rng := g2\<rparr>)
         else (this, ps\<lparr>pass_rng := g1\<rparr>))"

definition livingOfType :: "table \<Rightarrow> OrganismType \<Rightarrow> string \<Rightarrow> bool" where
  "livingOfType t ty i =
     (case map_of t i of Some organism \<Rightarrow> a_type organism = ty \<and> \<not> a_isDead organism
      | None \<Rightarrow> False)"

definition eatProducers :: "Consumer \<Rightarrow> Pass \<Rightarrow> Consumer \<times> Pass" where
  "eatProducers consumer ps =
     (if consumerType consumer \<noteq> Carnivore
      then
        let nearbyProducers =
              filter (livingOfType (newOrganisms ps) Producer)
                (getNearbyOrganisms (pass_grid ps) (position consumer) 1)
        in if nearbyProducers \<noteq> []
           then
             let targetId = pick nearbyProducers (shd (pass_rng ps));
                 ps1 = ps\<lparr>pass_rng := stl (pass_rng ps)\<rparr>
             in case map_of (newOrganisms ps1) targetId of
                  Some target \<Rightarrow>
                    if canEat consumer target
                    then
                      let (targetInstance, u') = Producer_new (as_partial target) (pass_uuids ps1);
                          (consumer', prey', gain, g') = eat consumer targetInstance (pass_rng ps1)
                      in (consumer',
                          ps1\<lparr>newOrganisms :=
                                 AList.update targetId (Producer_getAttributes prey') (newOrganisms ps1),
                               pass_rng := g', pass_uuids := u'\<rparr>)
                    else (consumer, ps1)
                | None \<Rightarrow> (consumer, ps1)
           else (consumer, ps)
      else (consumer, ps))"

definition eatConsumers :: "Consumer \<Rightarrow> Pass \<Rightarrow> Consumer \<times> Pass" where
  "eatConsumers consumer ps =
     (if consumerType consumer \<noteq> Herbivore
      then
        let nearbyConsumers =
              filter (\<lambda>i. livingOfType (newOrganisms ps) Consumer i \<and>
                           map_option a_id (map_of (newOrganisms ps) i) \<noteq> Some (org_id consumer))
                (getNearbyOrganisms (pass_grid ps) (position consumer) 2)
        in if nearbyConsumers \<noteq> []
           then
             let targetId = pick nearbyConsumers (shd (pass_rng ps));
                 ps1 = ps\<lparr>pass_rng := stl (pass_rng ps)\<rparr>
             in case map_of (newOrganisms ps1) targetId of
                  Some target \<Rightarrow>
                    if canEat consumer target
                    then
                      let (targetInstance, u') = Consumer_new (as_partial target) (pass_uuids ps1);
                          (consumer', prey', gain, g') = eat consumer targetInstance (pass_rng ps1)
                      in (consumer',
                          ps1\<lparr>newOrganisms :=
                                 AList.update targetId (Consumer_getAttributes prey') (newOrganisms ps1),
                               pass_rng := g', pass_uuids := u'\<rparr>)
                    else (consumer, ps1)
                | None \<Rightarrow> (consumer, ps1)
           else (consumer, ps)
      else (consumer, ps))"

text \<open>
  The decomposer picks one of the organisms of its cell that the table marks dead,
  decomposes it, and queues it for removal unless it is queued already.
\<close>

definition decomposeOne :: "Decomposer \<Rightarrow> Cell \<Rightarrow> Pass \<Rightarrow> Decomposer \<times> Pass" where
  "decomposeOne decomposer cell ps =
     (let cellOrganisms =
            filter (\<lambda>i. case map_of (newOrganisms ps) i of
                           Some organism \<Rightarrow> a_isDead organism | None \<Rightarrow> False)
              (organisms cell)
      in if cellOrganisms \<noteq> []
         then
           let targetId = pick cellOrganisms (shd (pass_rng ps));
               ps1 = ps\<lparr>pass_rng := stl (pass_rng ps)\<rparr>
           in case map_of (newOrganisms ps1) targetId of
                Some target \<Rightarrow>
                  let (decomposer', nutrients) = decompose decomposer target
                  in (decomposer',
                      ps1\<lparr>pass_grid := addNutrients (pass_grid ps1) (position decomposer') nutrients,
                           deadOrganisms :=
                             (if targetId \<in> set (deadOrganisms ps1) then deadOrganisms ps1
                              else deadOrganisms ps1 @ [targetId])\<rparr>)
              | None \<Rightarrow> (decomposer, ps1)
         else (decomposer, ps))"

definition processProducer ::
  "EnvironmentConfig \<Rightarrow> string \<Rightarrow> OrganismAttributes \<Rightarrow> Cell \<Rightarrow> Pass \<Rightarrow> Pass" where
  "processProducer environmentConfig i organism cell ps =
     (let (producer0, u1) = Producer_new (as_partial organism) (pass_uuids ps);
          producer = Producer_update producer0 environmentConfig
                       (cell_nutrientLevel cell) (waterLevel cell);
          ps1 = ps\<lparr>newOrganisms :=
                      AList.update i (Producer_getAttributes producer) (newOrganisms ps),
                    pass_uuids := u1\<rparr>
      in snd (tryReproduce producer 2 ps1))"

definition processConsumer ::
  "EnvironmentConfig \<Rightarrow> string \<Rightarrow> OrganismAttributes \<Rightarrow> Pass \<Rightarrow> Pass" where
  "processConsumer environmentConfig i organism ps =
     (let (consumer0, u1) = Consumer_new (as_partial organism) (pass_uuids ps);
          consumer1 = Consumer_update consumer0 environmentConfig;
          (consumer2, ps2) = consumerMove environmentConfig consumer1 (ps\<lparr>pass_uuids := u1\<rparr>);
          (consumer3, ps3) = eatProducers consumer2 ps2;
          (consumer4, ps4) = eatConsumers consumer3 ps3;
          (consumer5, ps5) = tryReproduce consumer4 3 ps4
      in ps5\<lparr>newOrganisms :=
                 AList.update i (Consumer_getAttributes consumer5) (newOrganisms ps5)\<rparr>)"

definition processDecomposer ::
  "EnvironmentConfig \<Rightarrow> string \<Rightarrow> OrganismAttributes \<Rightarrow> Cell \<Rightarrow> Pass \<Rightarrow> Pass" where
  "processDecomposer environmentConfig i organism cell ps =
     (let (decomposer0, u1) = Decomposer_new (as_partial organism) (pass_uuids ps);
          deadCount = deadOrganismsCounts ps (cellKey (position decomposer0));
          (decomposer1, nutrientsProduced) =
             Decomposer_update decomposer0 environmentConfig deadCount;
          ps1 = ps\<lparr>pass_uuids := u1,
                    pass_grid := (if nutrientsProduced > 0
                                  then addNutrients (pass_grid ps) (position decomposer1)
                                         nutrientsProduced
                                  else pass_grid ps)\<rparr>;
          (decomposer2, ps2) = decomposerMove environmentConfig decomposer1 ps1;
          (decomposer3, ps3) =
             (if deadCount > 0 then decomposeOne decomposer2 cell ps2 else (decomposer2, ps2));
          (decomposer4, ps4) = tryReproduce decomposer3 2 ps3
      in ps4\<lparr>newOrganisms :=
                 AList.update i (Decomposer_getAttributes decomposer4) (newOrganisms ps4)\<rparr>)"

text \<open>
  The body of the loop over \<^verbatim>\<open>Object.entries(newOrganisms)\<close>. The entries are those of
  the table as it is when the loop starts: \<open>organism\<close> is the object of that moment, also
  when the pass has replaced it in the table since.
\<close>

definition processOrganism :: "EnvironmentConfig \<Rightarrow> string \<times> OrganismAttributes \<Rightarrow> Pass \<Rightarrow> Pass" where
  "processOrganism environmentConfig entry ps =
     (let i = fst entry; organism = snd entry
      in if a_isDead organism
         then ps\<lparr>deadOrganisms := deadOrganisms ps @ [i],
                 deadOrganismsCounts := (deadOrganismsCounts ps)
                   (cellKey (a_position organism) :=
                      deadOrganismsCounts ps (cellKey (a_position organism)) + 1)\<rparr>
         else
           case getCell (pass_grid ps) (a_position organism) of
             None \<Rightarrow> ps
           | Some cell \<Rightarrow>
               (case a_type organism of
                  Producer \<Rightarrow> processProducer environmentConfig i organism cell ps
                | Consumer \<Rightarrow> processConsumer environmentConfig i organism ps
                | Decomposer \<Rightarrow> processDecomposer environmentConfig i organism cell ps))"

definition organismPass :: "EnvironmentConfig \<Rightarrow> table \<Rightarrow> Grid \<Rightarrow> rng \<Rightarrow> uuids \<Rightarrow> Pass" where
  "organismPass environmentConfig organisms' gr g u =
     fold (processOrganism environmentConfig) organisms'
       \<lparr>newOrganisms = organisms', deadOrganisms = [], positionChanges = [],
        newOrganismsToAdd = [], deadOrganismsCounts = (\<lambda>_. 0), pass_grid = gr,
        pass_rng = g, pass_uuids = u\<rparr>"

text \<open>
  The three loops after the pass. The loop over the queued moves assigns to
  \<^verbatim>\<open>newOrganisms[id].position\<close>, which throws a \<^verbatim>\<open>TypeError\<close> when the table has no entry
  for the id of the move. The moves do not change the keys of the table, so that all
  moves find their entries exactly when \<open>movesApply\<close> holds of the pass; \<^verbatim>\<open>runCycle\<close>
  checks it before it runs the loops.
\<close>

definition movesApply :: "Pass \<Rightarrow> bool" where
  "movesApply ps =
     (\<forall>change\<in>set (positionChanges ps). map_of (newOrganisms ps) (fst change) \<noteq> None)"

definition applyMove :: "string \<times> Position \<times> Position \<Rightarrow> table \<times> Grid \<Rightarrow> table \<times> Grid" where
  "applyMove change tg =
     (let i = fst change; oldPos = fst (snd change); newPos = snd (snd change);
          gr' = snd (moveOrganism (snd tg) i oldPos newPos)
      in (case map_of (fst tg) i of
            Some organism \<Rightarrow> AList.update i (organism\<lparr>a_position := newPos\<rparr>) (fst tg)
          | None \<Rightarrow> fst tg, gr'))"

definition addNewOrganism :: "Organism \<Rightarrow> table \<times> Grid \<Rightarrow> table \<times> Grid" where
  "addNewOrganism newOrganism tg =
     (AList.update (org_id newOrganism) (Organism_getAttributes newOrganism) (fst tg),
      snd (addOrganism (snd tg) (Organism_getAttributes newOrganism)))"

definition removeDead :: "string \<Rightarrow> table \<times> Grid \<Rightarrow> table \<times> Grid" where
  "removeDead i tg =
     (case map_of (fst tg) i of
        Some organism \<Rightarrow>
          (AList.delete i (fst tg), snd (removeOrganism (snd tg) i (a_position organism)))
      | None \<Rightarrow> tg)"

definition settle :: "Pass \<Rightarrow> table \<times> Grid" where
  "settle ps =
     fold removeDead (deadOrganisms ps)
       (fold addNewOrganism (newOrganismsToAdd ps)
          (fold applyMove (positionChanges ps) (newOrganisms ps, pass_grid ps)))"

text \<open>The population counts; they do not look at \<^verbatim>\<open>isDead\<close>.\<close>

definition countProducers :: "table \<Rightarrow> nat" where
  "countProducers t = length (filter (\<lambda>organism. a_type organism = Producer) (map snd t))"

definition countHerbivores :: "table \<Rightarrow> nat" where
  "countHerbivores t =
     length (filter (\<lambda>organism. a_type organism = Consumer \<and>
                       a_consumerType organism = Some Herbivore) (map snd t))"

definition countCarnivores :: "table \<Rightarrow> nat" where
  "countCarnivores t =
     length (filter (\<lambda>organism. a_type organism = Consumer \<and>
                       a_consumerType organism = Some Carnivore) (map snd t))"

definition countDecomposers :: "table \<Rightarrow> nat" where
  "countDecomposers t = length (filter (\<lambda>organism. a_type organism = Decomposer) (map snd t))"

text \<open>
  \<^verbatim>\<open>checkForExtinction\<close> counts the table again. On extinction, with the automatic
  restart on, it counts the extinction, draws a new configuration and schedules the
  restart.
\<close>

definition checkForExtinction :: "Simulation \<Rightarrow> table \<Rightarrow> nat \<Rightarrow> rng \<Rightarrow> bool \<times> Simulation \<times> rng" where
  "checkForExtinction sim t currentDay g =
     (let totalOrganisms =
            countProducers t + countHerbivores t + countCarnivores t + countDecomposers t
      in if totalOrganisms = 0 \<and> autoRestartOnExtinction sim
         then
           let (newConfig, g') = generateRandomConfig g
           in (True, sim\<lparr>extinctionCount := extinctionCount sim + 1,
                          lastExtinctionDay := currentDay,
                          pendingRestart := Some newConfig\<rparr>, g')
         else (False, sim, g))"

definition countSpecies :: "table \<Rightarrow> (string \<times> nat) list" where
  "countSpecies t =
     fold (\<lambda>organism speciesCounts.
             AList.update (a_species organism)
               ((case map_of speciesCounts (a_species organism) of None \<Rightarrow> 0 | Some n \<Rightarrow> n) + 1)
               speciesCounts)
       (map snd t) []"

definition biodiversityOf :: "table \<Rightarrow> real" where
  "biodiversityOf t =
     (let speciesCounts = countSpecies t;
          totalOrganisms = foldl (\<lambda>sum n. sum + n) 0 (map snd speciesCounts)
      in foldl (\<lambda>biodiversity n.
                  biodiversity - (real n / real totalOrganisms) * ln (real n / real totalOrganisms))
           0 (map snd speciesCounts))"

text \<open>
  The ten pushes, with the stability index computed from the series as they are before
  the pushes; and the ten \<^verbatim>\<open>slice(-500)\<close>, which make new arrays.
\<close>

definition recordStatistics ::
  "SimulationStatistics \<Rightarrow> table \<Rightarrow> Grid \<Rightarrow> EnvironmentConfig \<Rightarrow> SimulationStatistics" where
  "recordStatistics st t gr environmentConfig =
     (let totalEnergy' = foldl (\<lambda>sum organism. sum + a_energy organism) 0 (map snd t);
          totalNutrients' =
            foldl (\<lambda>sum row. sum + foldl (\<lambda>rowSum cell. rowSum + cell_nutrientLevel cell) 0 row)
              0 (cells gr);
          biodiversity = biodiversityOf t;
          stabilityIndex' = computeStabilityIndex (producers st) (herbivores st)
      in \<lparr>producers = producers st @ [countProducers t],
          herbivores = herbivores st @ [countHerbivores t],
          carnivores = carnivores st @ [countCarnivores t],
          decomposers = decomposers st @ [countDecomposers t],
          biodiversityIndex = biodiversityIndex st @ [biodiversity],
          averageTemperature = averageTemperature st @ [temperature environmentConfig],
          averageRainfall = averageRainfall st @ [rainfall environmentConfig],
          totalEnergy = totalEnergy st @ [totalEnergy'],
          totalNutrients = totalNutrients st @ [totalNutrients'],
          stabilityIndex = stabilityIndex st @ [stabilityIndex']\<rparr>)"

definition sliceStatistics :: "SimulationStatistics \<Rightarrow> SimulationStatistics" where
  "sliceStatistics st =
     \<lparr>producers = slice_last 500 (producers st),
      herbivores = slice_last 500 (herbivores st),
      carnivores = slice_last 500 (carnivores st),
      decomposers = slice_last 500 (decomposers st),
      biodiversityIndex = slice_last 500 (biodiversityIndex st),
      averageTemperature = slice_last 500 (averageTemperature st),
      averageRainfall = slice_last 500 (averageRainfall st),
      totalEnergy = slice_last 500 (totalEnergy st),
      totalNutrients = slice_last 500 (totalNutrients st),
      stabilityIndex = slice_last 500 (stabilityIndex st)\<rparr>"

text \<open>
  The end of the state update: the pushes go into the arrays that the previous state
  refers to, in place. When the series have grown beyond 500 samples the new state
  refers to new arrays, at the next address, with the last 500 samples; otherwise it
  refers to the arrays of the previous state.
\<close>

definition updateStatistics ::
  "Simulation \<Rightarrow> table \<Rightarrow> Grid \<Rightarrow> EnvironmentConfig \<Rightarrow> Simulation \<times> nat" where
  "updateStatistics sim t gr environmentConfig =
     (let address = statistics (state sim);
          newStatistics = recordStatistics (statisticsArrays sim address) t gr environmentConfig;
          sim1 = sim\<lparr>statisticsArrays := (statisticsArrays sim)(address := newStatistics)\<rparr>
      in if length (producers newStatistics) > 500
         then (sim1\<lparr>statisticsArrays :=
                      (statisticsArrays sim1)(statisticsCount sim1 := sliceStatistics newStatistics),
                    statisticsCount := statisticsCount sim1 + 1\<rparr>,
               statisticsCount sim1)
         else (sim1, address))"

text \<open>
  One step. The environment and the grid are updated in place before the state update
  is computed, and the passes of the state update change the grid in place as well.
  When the update detects an extinction it returns the previous state: nothing is pushed
  to the statistics, but the grid that the state refers to has changed. Without
  \<^verbatim>\<open>Environment\<close> or \<^verbatim>\<open>Grid\<close> the step does nothing. The result is the error thrown, or
  the hook after the step and the rest of the two sources.
\<close>

definition runCycle :: "Simulation \<Rightarrow> rng \<Rightarrow> uuids \<Rightarrow> error + Simulation \<times> rng \<times> uuids" where
  "runCycle sim g u =
     (case (environmentRef sim, gridRef sim) of
        (Some environment0, Some address) \<Rightarrow>
          let grid0 = gridObjects sim address;
              (environment1, g1) = Environment_update environment0 g;
              environmentConfig = getConfig environment1;
              activeDisturbances = getActiveDisturbances environment1;
              grid1 = updateEnvironment grid0 environmentConfig;
              grid2 = fold (\<lambda>d gr. applyDisturbance gr (startX (affectedArea d))
                                       (startY (affectedArea d)) (endX (affectedArea d))
                                       (endY (affectedArea d)) (d_type d) (intensity d))
                        activeDisturbances grid1;
              prevState = state sim;
              ps = organismPass environmentConfig (st_organisms prevState) grid2 g1 u
          in if \<not> movesApply ps then Inl TypeError
             else
               let (newOrganisms', grid3) = settle ps;
                   sim1 = sim\<lparr>environmentRef := Some environment1,
                              gridObjects := (gridObjects sim)(address := grid3)\<rparr>;
                   (extinctionOccurred, sim2, g2) =
                      checkForExtinction sim1 newOrganisms' (day environmentConfig) (pass_rng ps)
               in if extinctionOccurred then Inr (sim2, g2, pass_uuids ps)
                  else
                    let (sim3, statistics') =
                          updateStatistics sim2 newOrganisms' grid3 environmentConfig
                    in Inr (sim3\<lparr>state := prevState\<lparr>
                          st_day := day environmentConfig,
                          st_season := season environmentConfig,
                          environment := environmentConfig,
                          grid := CellsOf address,
                          st_organisms := newOrganisms',
                          disturbance :=
                            (case activeDisturbances of [] \<Rightarrow> None | d # _ \<Rightarrow> Some d),
                          statistics := statistics'\<rparr>\<rparr>,
                        g2, pass_uuids ps)
      | _ \<Rightarrow> Inr (sim, g, u))"

section \<open>Consistency of the grid and the table\<close>

text \<open>
  The grid has the shape its constructor gives it: \<^verbatim>\<open>height\<close> rows of \<^verbatim>\<open>width\<close> cells.
\<close>

definition wf_grid :: "Grid \<Rightarrow> bool" where
  "wf_grid gr =
     (length (cells gr) = nat (grid_height gr) \<and>
      (\<forall>row\<in>set (cells gr). length row = nat (grid_width gr)))"

text \<open>The ids in the cell of a position, and the ids of all cells.\<close>

definition occupants :: "Grid \<Rightarrow> Position \<Rightarrow> string list" where
  "occupants gr pos = organisms (cell_at gr (pos_x pos) (pos_y pos))"

definition layout :: "Grid \<Rightarrow> string list list list" where
  "layout gr = map (map organisms) (cells gr)"

definition inGrid :: "Grid \<Rightarrow> Position \<Rightarrow> bool" where
  "inGrid gr pos =
     (pos_x pos \<ge> 0 \<and> pos_x pos < grid_width gr \<and> pos_y pos \<ge> 0 \<and> pos_y pos < grid_height gr)"

text \<open>
  The table has one entry for a key, and stores every organism under its id, which is
  not the empty string.
\<close>

definition wf_table :: "table \<Rightarrow> bool" where
  "wf_table t =
     (distinct (map fst t) \<and> (\<forall>entry\<in>set t. a_id (snd entry) = fst entry \<and> fst entry \<noteq> []))"

text \<open>
  A population of \<^verbatim>\<open>initialize\<close> whose grid has the shape of a grid of width \<open>w\<close> and
  height \<open>h\<close>, and whose table holds at most \<open>p\<close> producers, \<open>hb\<close> herbivores, \<open>c\<close>
  carnivores and \<open>d\<close> decomposers, and nothing else.
\<close>

definition holdsAtMost :: "Population \<Rightarrow> int \<Rightarrow> int \<Rightarrow> nat \<Rightarrow> nat \<Rightarrow> nat \<Rightarrow> nat \<Rightarrow> bool" where
  "holdsAtMost pop w h p hb c d =
     (wf_grid (pop_grid pop) \<and> grid_width (pop_grid pop) = w \<and> grid_height (pop_grid pop) = h \<and>
      countProducers (pop_organisms pop) \<le> p \<and> countHerbivores (pop_organisms pop) \<le> hb \<and>
      countCarnivores (pop_organisms pop) \<le> c \<and> countDecomposers (pop_organisms pop) \<le> d \<and>
      length (pop_organisms pop) \<le> p + hb + c + d)"

text \<open>
  What the pass over the organisms leaves alone for an organism \<open>X\<close> that the table marks
  dead: its entry \<open>a\<close>, its queued move \<open>m\<close> if any, the ids of the queued offspring
  (none is \<open>X\<close>), the supply of fresh ids (none is \<open>X\<close>), and the ids in the cells of the
  grid, which are those of \<open>gr0\<close>.
\<close>

definition kept ::
  "string \<Rightarrow> OrganismAttributes \<Rightarrow> (Position \<times> Position) option \<Rightarrow> Grid \<Rightarrow> Pass \<Rightarrow> bool" where
  "kept X a m gr0 ps =
     (a_isDead a \<and>
      map_of (newOrganisms ps) X = Some a \<and>
      map_of (positionChanges ps) X = m \<and>
      (\<forall>offspring\<in>set (newOrganismsToAdd ps). org_id offspring \<noteq> X) \<and>
      X \<notin> sset (pass_uuids ps) \<and>
      layout (pass_grid ps) = layout gr0 \<and>
      grid_width (pass_grid ps) = grid_width gr0 \<and>
      grid_height (pass_grid ps) = grid_height gr0)"

text \<open>A pass in which nothing is queued for removal and no dead organism was counted.\<close>

definition nothingDead :: "string list \<Rightarrow> Pass \<Rightarrow> bool" where
  "nothingDead keys ps =
     (deadOrganisms ps = [] \<and> deadOrganismsCounts ps = (\<lambda>_. 0) \<and>
      map fst (newOrganisms ps) = keys)"

text \<open>
  A table and a grid in which the dead organism \<open>X\<close> still has its entry \<open>a\<close> and is at
  most once in its cell; and a table and a grid from which it is gone.
\<close>

definition awaitsRemoval :: "string \<Rightarrow> OrganismAttributes \<Rightarrow> table \<times> Grid \<Rightarrow> bool" where
  "awaitsRemoval X a tg =
     (map_of (fst tg) X = Some a \<and> wf_grid (snd tg) \<and> inGrid (snd tg) (a_position a) \<and>
      count_list (occupants (snd tg) (a_position a)) X \<le> 1)"

definition removedFrom :: "string \<Rightarrow> Position \<Rightarrow> table \<times> Grid \<Rightarrow> bool" where
  "removedFrom X pos tg =
     (map_of (fst tg) X = None \<and> wf_grid (snd tg) \<and> inGrid (snd tg) pos \<and>
      X \<notin> set (occupants (snd tg) pos))"

section \<open>saveSimulation and loadSimulation (hooks/useSimulation.ts)\<close>

text \<open>
  The date of the snapshot is an argument: it is the clock's, not the simulation's.
  \<^verbatim>\<open>{ ...state }\<close> is a shallow copy: the snapshot refers to the same cells and to the
  same arrays of statistics as the state, and what it shows changes with them when the
  simulation goes on.
\<close>

definition saveSimulation :: "Simulation \<Rightarrow> string \<Rightarrow> string \<Rightarrow> SavedSimulation" where
  "saveSimulation sim name' date' =
     \<lparr>saved_name = name', saved_date = date', saved_state = state sim,
      saved_config = sim_config sim\<rparr>"

text \<open>
  \<^verbatim>\<open>loadSimulation\<close> builds a new \<^verbatim>\<open>Environment\<close> from the saved environment
  configuration and a new \<^verbatim>\<open>Grid\<close> of the saved dimensions, at the next address, adds the
  saved organisms to the new grid, and stores the saved state and configuration. The
  state is the saved object: its grid is not the new one. The argument is \<open>None\<close> for a
  missing snapshot, for which nothing happens.
\<close>

definition loadSimulation :: "Simulation \<Rightarrow> SavedSimulation option \<Rightarrow> rng \<Rightarrow> Simulation \<times> rng" where
  "loadSimulation sim savedSimulation g =
     (case savedSimulation of
        None \<Rightarrow> (sim, g)
      | Some saved \<Rightarrow>
          let environment' = Environment_new
                (config_as_partial (environment (saved_state saved)))
                (Some (saved_config saved));
              (grid0, g1) = Grid_new (width (environment (saved_state saved)))
                                     (height (environment (saved_state saved)))
                                     (getConfig environment') g;
              grid' = fold (\<lambda>organism gr. snd (addOrganism gr organism))
                        (map snd (st_organisms (saved_state saved))) grid0;
              address = gridCount sim
          in (sim\<lparr>environmentRef := Some environment', gridRef := Some address,
                   gridObjects := (gridObjects sim)(address := grid'),
                   gridCount := address + 1,
                   state := saved_state saved, sim_config := saved_config saved\<rparr>, g1))"

section \<open>Example values\<close>

definition environment0 :: Environment where
  "environment0 = Environment_new no_config None"

definition area0 :: Area where
  "area0 = \<lparr>startX = 0, startY = 0, endX = 3, endY = 3\<rparr>"

definition fire0 :: Disturbance where
  "fire0 = \<lparr>d_type = Fire, intensity = 1, duration = 5, affectedArea = area0,
     current = 0, active = True\<rparr>"

text \<open>A random source whose every draw is one half.\<close>

definition quiet :: rng where
  "quiet = sconst (Draw (1/2))"

definition cell0 :: Cell where
  "cell0 = \<lparr>cell_x = 0, cell_y = 0, cell_height = 0, cell_nutrientLevel = 50, waterLevel = 50,
     organisms = [''p''], cell_temperature = 25, cell_pollutionLevel = 10\<rparr>"

definition grid0 :: Grid where
  "grid0 = \<lparr>grid_width = 1, grid_height = 1, cells = [[cell0]]\<rparr>"

definition env0 :: EnvironmentConfig where
  "env0 = \<lparr>temperature = 25, rainfall = 50, seasonalFactor = 1, nutrientLevel = 50,
     sunlightIntensity = 80, width = 1, height = 1, pollutionLevel = 10, season = Spring,
     day = 0\<rparr>"

definition producer0 :: Producer where
  "producer0 = \<lparr>org_id = ''p'', org_type = Producer, position = \<lparr>pos_x = 0, pos_y = 0\<rparr>,
     energy = 200, org_size = 1, age = 0, maxAge = 100, reproductionEnergy = 150,
     reproductionRate = 0.2, movementCost = 1, isDead = False, species = ''Basic Plant'',
     growthRate = 0.1, photosynthesisRate = 0.25, waterConsumption = 0.08\<rparr>"

definition consumer0 :: Consumer where
  "consumer0 = \<lparr>org_id = ''c'', org_type = Consumer, position = \<lparr>pos_x = 0, pos_y = 0\<rparr>,
     energy = 200, org_size = 1, age = 0, maxAge = 100, reproductionEnergy = 150,
     reproductionRate = 0.2, movementCost = 1, isDead = False, species = ''Herbivore'',
     consumerType = Herbivore, huntingEfficiency = 0.5, metabolismRate = 0.08,
     diet = [''Basic Plant'']\<rparr>"

definition steady :: "nat list" where
  "steady = [5, 5, 5, 5, 5, 5, 5, 5, 5, 5, 5]"

definition swinging :: "nat list" where
  "swinging = [0, 20, 0, 20, 0, 20, 0, 20, 0, 20]"

definition rising :: "nat list" where
  "rising = [10, 10, 10, 10, 10, 10, 10, 10, 10, 10, 20]"

text \<open>A supply of identifiers, all different: \<open>i\<close>, \<open>ii\<close>, \<open>iii\<close>, ...\<close>

definition ids0 :: uuids where
  "ids0 = siterate (\<lambda>s. CHR ''i'' # s) ''i''"

text \<open>
  The hook after its first render with the default configuration, and a hook with
  series of statistics to look back on, an empty table and no automatic restart.
\<close>

definition hook0 :: Simulation where
  "hook0 =
     \<lparr>sim_config = DEFAULT_CONFIG, autoRestartOnExtinction = True, extinctionCount = 0,
      lastExtinctionDay = 0,
      state = \<lparr>st_day = 0, st_season = Spring,
        environment = \<lparr>temperature = 25, rainfall = 30, seasonalFactor = 1,
          nutrientLevel = 50, sunlightIntensity = 80, width = 30, height = 30,
          pollutionLevel = 10, season = Spring, day = 0\<rparr>,
        grid = Unshared (replicate 30 (replicate 30 None)),
        st_organisms = [], disturbance = None, statistics = 0, paused = True,
        cyclesPerSecond = 1\<rparr>,
      gridRef = None, environmentRef = None, pendingRestart = None,
      gridObjects = (\<lambda>_. \<lparr>grid_width = 0, grid_height = 0, cells = []\<rparr>),
      gridCount = 0,
      statisticsArrays = (\<lambda>_. EMPTY_STATS), statisticsCount = 1\<rparr>"

text \<open>The hook after its first render with the configuration \<open>zeroConfig\<close> below.\<close>

definition hookZero :: Simulation where
  "hookZero =
     hook0\<lparr>sim_config :=
             \<lparr>gridWidth = 0, gridHeight = 0, initialProducers = - 3,
              initialHerbivores = 0, initialCarnivores = 0, initialDecomposers = 0,
              simulationSpeed = 1, initialTemperature = 25, initialRainfall = 30,
              enableEvolution = True, enableDisturbances = False\<rparr>,
           state := (state hook0)\<lparr>
             environment := (environment (state hook0))\<lparr>width := 0, height := 0\<rparr>,
             grid := Unshared []\<rparr>\<rparr>"

definition statsWorld :: "nat list \<Rightarrow> nat list \<Rightarrow> Simulation" where
  "statsWorld producerSeries herbivoreSeries =
     hook0\<lparr>autoRestartOnExtinction := False,
           state := (state hook0)\<lparr>grid := CellsOf 0, paused := False\<rparr>,
           gridRef := Some 0, environmentRef := Some environment0,
           gridObjects := (\<lambda>_. grid0), gridCount := 1,
           statisticsArrays :=
             (\<lambda>_. EMPTY_STATS\<lparr>producers := producerSeries, herbivores := herbivoreSeries\<rparr>)\<rparr>"

definition zeroConfig :: SimulationConfig where
  "zeroConfig = \<lparr>gridWidth = 0, gridHeight = 0, initialProducers = - 3,
     initialHerbivores = 0, initialCarnivores = 0, initialDecomposers = 0,
     simulationSpeed = 1, initialTemperature = 25, initialRainfall = 30,
     enableEvolution = True, enableDisturbances = False\<rparr>"

definition badConfig :: SimulationConfig where
  "badConfig = \<lparr>gridWidth = 0, gridHeight = - 1, initialProducers = 1,
     initialHerbivores = - 5, initialCarnivores = 0, initialDecomposers = 0,
     simulationSpeed = 1, initialTemperature = 25, initialRainfall = 30,
     enableEvolution = True, enableDisturbances = False\<rparr>"

(*PROPERTIES*)
section \<open>Random draws\<close>

lemma val_bounds: "0 \<le> val r" "val r < 1"
  using val [of r] by simp_all

lemma pick_in_set: "xs \<noteq> [] \<Longrightarrow> pick xs r \<in> set xs"
proof -
  assume ne: "xs \<noteq> []"
  have pos: "0 < real (length xs)" using ne by simp
  have "val r * real (length xs) < 1 * real (length xs)"
    using val_bounds(2) [of r] pos by (intro mult_strict_right_mono) simp_all
  then have "\<lfloor>val r * real (length xs)\<rfloor> < int (length xs)"
    by (simp add: floor_less_iff)
  moreover have "0 \<le> \<lfloor>val r * real (length xs)\<rfloor>"
    using val_bounds(1) [of r] by simp
  ultimately have "nat \<lfloor>val r * real (length xs)\<rfloor> < length xs"
    by linarith
  then show ?thesis by (simp add: pick_def)
qed

lemma quiet_simps: "val (shd quiet) = 1/2" "stl quiet = quiet"
  by (simp_all add: quiet_def Draw_inverse)

lemma quiet_snth: "val (quiet !! n) = 1/2" "sdrop n quiet = quiet"
  by (simp_all add: quiet_def Draw_inverse)

lemma ids0_simps: "shd ids0 = ''i''"
  by (simp add: ids0_def)

(*CLAIMS*)
section \<open>Organisms: construction, reproduction, growth and feeding\<close>

lemma Organism_new_species_nonempty: "species (fst (Organism_new attributes u)) \<noteq> []"
  by (simp add: Organism_new_def or_str_def split: option.splits prod.splits)

lemma Producer_new_species_nonempty: "species (fst (Producer_new attributes u)) \<noteq> []"
  by (simp add: Producer_new_def Organism_new_def or_str_def Organism.extend_def
      split: option.splits prod.splits)

lemma Consumer_new_species_nonempty: "species (fst (Consumer_new attributes u)) \<noteq> []"
  by (simp add: Consumer_new_def Organism_new_def or_str_def Organism.extend_def
      split: option.splits prod.splits)

lemma Decomposer_new_species_nonempty: "species (fst (Decomposer_new attributes u)) \<noteq> []"
  by (simp add: Decomposer_new_def Organism_new_def or_str_def Organism.extend_def
      split: option.splits prod.splits)

text \<open>
  C10. The claim is that every Producer has movement cost 0 whatever its construction
  attributes say, so that \<^verbatim>\<open>move\<close> never reduces its energy. The Producer constructor
  does pass \<^verbatim>\<open>movementCost: 0\<close> to the base constructor, but the base constructor reads
  it as \<^verbatim>\<open>attributes.movementCost || 1\<close>, and \<^verbatim>\<open>0\<close> is falsy: every Producer is built
  with movement cost 1, and \<^verbatim>\<open>move\<close> takes one unit of energy from it.
\<close>

theorem Producer_new_movementCost_is_one:
  "movementCost (fst (Producer_new attributes u)) = 1 \<and>
   energy (move (fst (Producer_new attributes u)) newPosition) =
     energy (fst (Producer_new attributes u)) - 1"
  by (simp add: Producer_new_def Organism_new_def or_num_def move_def Organism.extend_def
      split: option.splits prod.splits)

lemma MIN_VALUE_pos: "0 < MIN_VALUE"
  by (simp add: MIN_VALUE_def)

lemma half_MIN_VALUE: "half MIN_VALUE = 0"
proof -
  have "MIN_VALUE / 2 < minNormal"
    by (simp add: MIN_VALUE_def minNormal_def)
  moreover have "MIN_VALUE / 2 / MIN_VALUE = 1 / 2"
    using MIN_VALUE_pos by simp
  ultimately show ?thesis
    using MIN_VALUE_pos by (simp add: half_def roundHalfEven_def)
qed

lemma minNormal_pos: "0 < minNormal"
  by (simp add: minNormal_def)

lemma half_of_normal: "2 * minNormal \<le> x \<Longrightarrow> half x = x / 2"
  using minNormal_pos by (simp add: half_def)

text \<open>
  Away from the underflow \<^verbatim>\<open>reproduce\<close> does what its comments say: for an organism
  whose energy \<open>E\<close> is at least twice the smallest normal number it leaves the parent
  with \<open>E / 2\<close> and returns an offspring with energy \<open>E / 2\<close>, of the parent's species and
  type. The species of an organism is never the empty string (the constructors replace
  it by a default, see the lemmas above), which is what the hypothesis on the species
  records.
\<close>

lemma reproduce_halves_normal_energy:
  assumes "2 * minNormal \<le> energy this" and "species this \<noteq> []"
  shows "energy (fst (reproduce this g u)) = energy this / 2 \<and>
         energy (fst (snd (reproduce this g u))) = energy this / 2 \<and>
         energy (fst (reproduce this g u)) + energy (fst (snd (reproduce this g u))) = energy this \<and>
         species (fst (snd (reproduce this g u))) = species this \<and>
         org_type (fst (snd (reproduce this g u))) = org_type this"
  using assms minNormal_pos half_of_normal [OF assms(1)]
  by (simp add: reproduce_def Organism_new_def no_attributes_def or_num_def or_str_def
      or_obj_def Let_def split: option.splits prod.splits)

lemma reproduce_halves_normal_energy_example:
  "energy (fst (reproduce producer0 quiet ids0)) = 100 \<and>
   energy (fst (snd (reproduce producer0 quiet ids0))) = 100 \<and>
   species (fst (snd (reproduce producer0 quiet ids0))) = ''Basic Plant'' \<and>
   org_type (fst (snd (reproduce producer0 quiet ids0))) = Producer"
proof -
  have "2 * minNormal \<le> 1"
    by (simp add: minNormal_def)
  then have h1: "2 * minNormal \<le> energy producer0"
    by (simp add: producer0_def)
  have h2: "species producer0 \<noteq> []"
    by (simp add: producer0_def)
  show ?thesis
    using reproduce_halves_normal_energy [OF h1 h2, of quiet ids0]
    by (simp add: producer0_def)
qed

text \<open>
  C4. The claim is that for every organism with energy \<open>E > 0\<close> the parent keeps exactly
  \<open>E / 2\<close> and the offspring starts with exactly \<open>E / 2\<close>, so that no energy is created.
  The comments of \<^verbatim>\<open>reproduce\<close> say the same (\<^verbatim>\<open>Offspring gets half the parent's energy\<close>).
  But the offspring's half reaches the constructor as \<^verbatim>\<open>attributes.energy || 100\<close>: for
  the smallest positive energy, \<^verbatim>\<open>Number.MIN_VALUE\<close>, the product \<^verbatim>\<open>this.energy * 0.5\<close>
  is \<^verbatim>\<open>0\<close>, which is falsy, and the default takes its place. Whatever the other fields of
  the organism and the random draws are, the parent is left with energy 0 and the
  offspring starts with energy 100.
\<close>

theorem reproduce_underflow_gives_default_energy:
  "0 < energy (this\<lparr>energy := MIN_VALUE\<rparr>) \<and>
   energy (fst (reproduce (this\<lparr>energy := MIN_VALUE\<rparr>) g u)) = 0 \<and>
   energy (fst (snd (reproduce (this\<lparr>energy := MIN_VALUE\<rparr>) g u))) = 100"
  using MIN_VALUE_pos
  by (simp add: reproduce_def Organism_new_def no_attributes_def or_num_def half_MIN_VALUE
      Let_def split: option.splits prod.splits)

text \<open>
  C3. The claim is that a growing Producer pays a fixed energy cost of 8. In the source
  the cost is \<^verbatim>\<open>this.growthRate * 8\<close>: with growth rate 0.1 the Producer below gains 2.16
  by photosynthesis, grows by 0.1, and pays 0.8, not 8.
\<close>

theorem Producer_update_cost_counterexample:
  "\<not> isDead producer0 \<and>
   energy producer0 + 2.16 > 110 \<and> min (100 / 100) (100 / 100) > (0.4::real) \<and>
   org_size (Producer_update producer0 env0 100 100) = org_size producer0 + 0.1 * 1 \<and>
   energy (Producer_update producer0 env0 100 100) = energy producer0 + 2.16 - 0.8 \<and>
   energy (Producer_update producer0 env0 100 100) \<noteq> energy producer0 + 2.16 - 8"
  by (simp add: Producer_update_def Organism_update_def die_def Let_def producer0_def env0_def
      Producer_getTemperatureFactor_def Producer_getSeasonalFactor_def)

text \<open>
  C3, amended. For a Producer that is alive after the base update (it was not dead, its
  new age is below \<^verbatim>\<open>maxAge\<close> and its energy is positive): when its energy after the
  photosynthesis gain exceeds 110 and the resource factor
  \<open>min cellNutrient cellWater / 100\<close> exceeds 0.4, its size grows by
  \<open>growthRate * resourceFactor\<close> and it pays \<open>8 * growthRate\<close>; otherwise its size is
  unchanged and nothing is deducted from the energy after the gain.
\<close>

theorem Producer_update_growth:
  fixes this :: Producer and environmentConfig :: EnvironmentConfig
    and cellNutrientLevel cellWaterLevel :: real
  assumes "\<not> isDead this" and "age this + 1 < maxAge this" and "0 < energy this"
  defines "resourceFactor \<equiv> min (cellNutrientLevel / 100) (cellWaterLevel / 100)"
  defines "gained \<equiv> energy this + photosynthesisRate this *
             ((sunlightIntensity environmentConfig / 100) *
              Producer_getTemperatureFactor (temperature environmentConfig) *
              (1 - pollutionLevel environmentConfig / 100) *
              Producer_getSeasonalFactor (seasonalFactor environmentConfig)) * resourceFactor * 12"
  defines "this' \<equiv> Producer_update this environmentConfig cellNutrientLevel cellWaterLevel"
  shows "if gained > 110 \<and> resourceFactor > 0.4
         then org_size this' = org_size this + growthRate this * resourceFactor \<and>
              energy this' = gained - growthRate this * 8
         else org_size this' = org_size this \<and> energy this' = gained"
proof -
  define G where "G = gained"
  define R where "R = resourceFactor"
  have live: "Organism_update this = this\<lparr>age := age this + 1\<rparr>"
    using assms(1-3) by (simp add: Organism_update_def die_def Let_def)
  have upd: "this' =
      (if G > 110 \<and> R > 0.4
       then this\<lparr>age := age this + 1, energy := G - growthRate this * 8,
                 org_size := org_size this + growthRate this * R\<rparr>
       else this\<lparr>age := age this + 1, energy := G\<rparr>)"
    unfolding this'_def Producer_update_def live Let_def G_def R_def gained_def resourceFactor_def
    using assms(1) by simp
  show ?thesis
    unfolding upd G_def [symmetric] R_def [symmetric] by simp
qed

theorem Producer_update_growth_witness:
  "(\<not> isDead producer0 \<and> age producer0 + 1 < maxAge producer0 \<and> 0 < energy producer0) \<and>
   org_size (Producer_update producer0 env0 100 100) = 1.1 \<and>
   energy (Producer_update producer0 env0 100 100) = 201.36"
proof -
  have h: "\<not> isDead producer0" "age producer0 + 1 < maxAge producer0" "0 < energy producer0"
    by (simp_all add: producer0_def)
  show ?thesis
    using h Producer_update_growth [OF h, of env0 100 100]
    by (simp add: producer0_def env0_def Producer_getTemperatureFactor_def
        Producer_getSeasonalFactor_def)
qed

text \<open>
  C5. \<^verbatim>\<open>eat\<close>: when the consumer or the prey is already dead, nothing changes, no random
  number is drawn and 0 is returned. Otherwise the hunt succeeds exactly when the draw is
  below \<open>huntingEfficiency / (prey.size / this.size + 0.3)\<close>; on success the consumer
  gains 0.8 times the prey's energy, the prey is marked dead and the gain is returned; on
  failure the consumer loses 1.5 times its movement cost and 0 is returned. The two
  hypotheses keep the quotients of the formula defined; sizes are positive in the data
  model.
\<close>

theorem eat_outcome:
  assumes "org_size this \<noteq> 0" and "org_size prey / org_size this + 0.3 \<noteq> 0"
  shows "eat this prey g =
     (if isDead this \<or> isDead prey then (this, prey, 0, g)
      else if val (shd g) < huntingEfficiency this / (org_size prey / org_size this + 0.3)
      then (this\<lparr>energy := energy this + 0.8 * energy prey\<rparr>, prey\<lparr>isDead := True\<rparr>,
            0.8 * energy prey, stl g)
      else (this\<lparr>energy := energy this - 1.5 * movementCost this\<rparr>, prey, 0, stl g))"
  using assms by (simp add: eat_def huntingSuccess_def die_def Let_def mult.commute)

theorem eat_outcome_witness:
  "org_size consumer0 \<noteq> 0 \<and> org_size producer0 / org_size consumer0 + 0.3 \<noteq> 0 \<and>
   eat consumer0 producer0 (sconst (Draw (1/5))) =
     (consumer0\<lparr>energy := 360\<rparr>, producer0\<lparr>isDead := True\<rparr>, 160, sconst (Draw (1/5))) \<and>
   eat consumer0 producer0 (sconst (Draw (1/2))) =
     (consumer0\<lparr>energy := 198.5\<rparr>, producer0, 0, sconst (Draw (1/2)))"
proof -
  have h: "org_size consumer0 \<noteq> 0" "org_size producer0 / org_size consumer0 + 0.3 \<noteq> 0"
    by (simp_all add: producer0_def consumer0_def)
  show ?thesis
    using h eat_outcome [OF h, of "sconst (Draw (1/5))"] eat_outcome [OF h, of "sconst (Draw (1/2))"]
    by (simp add: producer0_def consumer0_def Draw_inverse)
qed

section \<open>Grid: moving an organism\<close>

text \<open>
  C8. When the destination lies outside the grid, \<^verbatim>\<open>moveOrganism\<close> returns
  \<^verbatim>\<open>false\<close> and the grid after the call is the grid before the call.
\<close>

theorem moveOrganism_out_of_bounds:
  assumes "pos_x newPosition < 0 \<or> pos_x newPosition \<ge> grid_width this \<or>
           pos_y newPosition < 0 \<or> pos_y newPosition \<ge> grid_height this"
  shows "moveOrganism this organismId oldPosition newPosition = (False, this)"
  using assms unfolding moveOrganism_def by (simp only: if_True)

theorem moveOrganism_out_of_bounds_witness:
  "(pos_x \<lparr>pos_x = 1, pos_y = 0\<rparr> < 0 \<or> pos_x \<lparr>pos_x = 1, pos_y = 0\<rparr> \<ge> grid_width grid0 \<or>
    pos_y \<lparr>pos_x = 1, pos_y = 0\<rparr> < 0 \<or> pos_y \<lparr>pos_x = 1, pos_y = 0\<rparr> \<ge> grid_height grid0) \<and>
   moveOrganism grid0 ''p'' \<lparr>pos_x = 0, pos_y = 0\<rparr> \<lparr>pos_x = 1, pos_y = 0\<rparr> = (False, grid0) \<and>
   organisms (cell_at grid0 0 0) = [''p'']"
proof -
  have h: "pos_x \<lparr>pos_x = 1, pos_y = 0\<rparr> < 0 \<or> pos_x \<lparr>pos_x = 1, pos_y = 0\<rparr> \<ge> grid_width grid0 \<or>
    pos_y \<lparr>pos_x = 1, pos_y = 0\<rparr> < 0 \<or> pos_y \<lparr>pos_x = 1, pos_y = 0\<rparr> \<ge> grid_height grid0"
    by (simp add: grid0_def)
  show ?thesis
    using h moveOrganism_out_of_bounds [OF h, of "''p''" "\<lparr>pos_x = 0, pos_y = 0\<rparr>"]
    by (simp add: grid0_def cell0_def cell_at_def)
qed

section \<open>Environment: the life of a disturbance\<close>

lemma updateDisturbances_append:
  "updateDisturbances (xs @ ys) = updateDisturbances xs @ updateDisturbances ys"
  by (induction xs) (simp_all add: Let_def)

lemma updateDisturbances_survivors:
  "updateDisturbances (survivors k ds) = survivors (Suc k) ds"
proof (induction ds)
  case Nil
  then show ?case by (simp add: survivors_def)
next
  case (Cons x xs)
  have "current x + real k + 1 = current x + (1 + real k)" by simp
  then show ?case using Cons
    by (auto simp add: survivors_def Let_def add.assoc)
qed

lemma updateDisturbances_as_survivors: "updateDisturbances ds = survivors 1 ds"
  by (induction ds) (simp_all add: survivors_def Let_def)

lemma updateDisturbances_aged:
  "x \<in> set (updateDisturbances xs) \<Longrightarrow>
     \<exists>y\<in>set xs. x = y\<lparr>current := current y + 1\<rparr> \<and> active y"
  by (induction xs) (auto simp add: Let_def split: if_splits)

lemma survivors_active: "x \<in> set (survivors k ds) \<Longrightarrow> active x"
  by (auto simp add: survivors_def)

lemma survivors_append: "survivors k (xs @ ys) = survivors k xs @ survivors k ys"
  by (simp add: survivors_def)

lemma addDisturbance_disturbances:
  "disturbances (snd (addDisturbance this ty i d a)) =
     disturbances this @ [\<lparr>d_type = ty, intensity = i, duration = d, affectedArea = a,
                           current = 0, active = True\<rparr>]"
  by (simp add: addDisturbance_def Let_def)

lemma Environment_update_disturbances:
  "\<exists>new. disturbances (fst (Environment_update this g)) =
          updateDisturbances (disturbances this) @ new \<and>
          (\<forall>x\<in>set new. current x = 0 \<and> active x)"
  by (auto simp add: Environment_update_def generateRandomDisturbance_def Let_def
      addDisturbance_disturbances split: prod.splits)

lemma updates_disturbances:
  "\<exists>later. disturbances (fst (updates (Suc k) this g)) = survivors (Suc k) (disturbances this) @ later \<and>
           (\<forall>x\<in>set later. current x < real (Suc k) \<and> active x)"
proof (induction k)
  case 0
  obtain new where n: "disturbances (fst (Environment_update this g)) =
          updateDisturbances (disturbances this) @ new" "\<forall>x\<in>set new. current x = 0 \<and> active x"
    using Environment_update_disturbances by blast
  show ?case
    by (rule exI [of _ new]) (use n in \<open>simp add: updateDisturbances_as_survivors\<close>)
next
  case (Suc k)
  obtain this1 g1 where u: "updates (Suc k) this g = (this1, g1)"
    by (cases "updates (Suc k) this g")
  from Suc u obtain later where l:
    "disturbances this1 = survivors (Suc k) (disturbances this) @ later"
    "\<forall>x\<in>set later. current x < real (Suc k) \<and> active x"
    by auto
  obtain new where n: "disturbances (fst (Environment_update this1 g1)) =
          updateDisturbances (disturbances this1) @ new" "\<forall>x\<in>set new. current x = 0 \<and> active x"
    using Environment_update_disturbances by blast
  have step: "updates (Suc (Suc k)) this g = Environment_update this1 g1"
    using u by (simp del: updates.simps add: updates.simps(2) [of "Suc k"])
  have aged: "\<forall>x\<in>set (updateDisturbances later). current x < real (Suc (Suc k)) \<and> active x"
  proof
    fix x assume "x \<in> set (updateDisturbances later)"
    then obtain y where "y \<in> set later" "x = y\<lparr>current := current y + 1\<rparr>" "active y"
      using updateDisturbances_aged by blast
    then show "current x < real (Suc (Suc k)) \<and> active x"
      using l(2) by auto
  qed
  have eq: "disturbances (fst (updates (Suc (Suc k)) this g)) =
      survivors (Suc (Suc k)) (disturbances this) @ (updateDisturbances later @ new)"
    by (simp only: step n(1) l(1) updateDisturbances_append updateDisturbances_survivors
        append_assoc)
  have young: "\<forall>x\<in>set (updateDisturbances later @ new).
      current x < real (Suc (Suc k)) \<and> active x"
    using n(2) aged by auto
  show ?case
    using eq young by blast
qed

lemma updates_all_active:
  "x \<in> set (disturbances (fst (updates (Suc k) this g))) \<Longrightarrow> active x"
  using updates_disturbances [of k this g] survivors_active by (metis Un_iff set_append)

text \<open>
  C7. \<^verbatim>\<open>addDisturbance\<close> returns the new disturbance \<open>D\<close>, with age 0 and active, and
  registers it; for a Fire the temperature becomes the old temperature plus
  \<open>5 * intensity\<close>, clamped to the interval from -10 to 45. After \<open>k \<ge> 1\<close> calls of
  \<^verbatim>\<open>update\<close>, whatever the random draws, the active disturbances are exactly: the
  survivors of the disturbances registered before \<open>D\<close>; then \<open>D\<close> itself with age \<open>k\<close>
  when \<open>k\<close> is below its duration \<open>d\<close>, and nothing in its place from the \<open>d\<close>-th call
  on; then the disturbances generated at random since, all younger than \<open>k\<close>.
\<close>

theorem addDisturbance_lifetime:
  fixes d :: nat and ty :: DisturbanceType and inten :: real and area :: Area
    and this :: Environment
  defines "D \<equiv> \<lparr>d_type = ty, intensity = inten, duration = real d, affectedArea = area,
                 current = 0, active = True\<rparr>"
  defines "this1 \<equiv> snd (addDisturbance this ty inten (real d) area)"
  shows "fst (addDisturbance this ty inten (real d) area) = D \<and>
         (ty = Fire \<longrightarrow> temperature (config this1) =
              max (-10) (min 45 (temperature (config this) + 5 * inten))) \<and>
         D \<in> set (getActiveDisturbances this1) \<and>
         (\<forall>k g. 1 \<le> k \<longrightarrow>
            (\<exists>later. getActiveDisturbances (fst (updates k this1 g)) =
                 survivors k (disturbances this) @
                 (if k < d then [D\<lparr>current := real k\<rparr>] else []) @ later \<and>
               (\<forall>x\<in>set later. current x < real k)))"
proof -
  have a: "fst (addDisturbance this ty inten (real d) area) = D"
    by (simp add: addDisturbance_def D_def Let_def)
  have b: "ty = Fire \<longrightarrow> temperature (config this1) =
              max (-10) (min 45 (temperature (config this) + 5 * inten))"
    by (simp add: addDisturbance_def this1_def Let_def)
  have ds1: "disturbances this1 = disturbances this @ [D]"
    by (simp add: this1_def D_def addDisturbance_disturbances)
  have c: "D \<in> set (getActiveDisturbances this1)"
    by (simp add: getActiveDisturbances_def ds1) (simp add: D_def)
  have sD: "survivors k [D] = (if k < d then [D\<lparr>current := real k\<rparr>] else [])" for k
    by (simp add: survivors_def D_def)
  have e: "\<exists>later. getActiveDisturbances (fst (updates k this1 g)) =
                 survivors k (disturbances this) @
                 (if k < d then [D\<lparr>current := real k\<rparr>] else []) @ later \<and>
               (\<forall>x\<in>set later. current x < real k)" if "1 \<le> k" for k g
  proof -
    from that obtain j where k: "k = Suc j" by (cases k) auto
    obtain later where l:
      "disturbances (fst (updates (Suc j) this1 g)) = survivors (Suc j) (disturbances this1) @ later"
      "\<forall>x\<in>set later. current x < real (Suc j) \<and> active x"
      using updates_disturbances by blast
    have act: "getActiveDisturbances (fst (updates (Suc j) this1 g)) =
               disturbances (fst (updates (Suc j) this1 g))"
      unfolding getActiveDisturbances_def
      by (rule filter_True) (use updates_all_active in blast)
    show ?thesis
      apply (rule exI [of _ later])
      using l(2) by (simp only: k act l(1) ds1 survivors_append sD) simp
  qed
  show ?thesis using a b c e by blast
qed


lemma quiet_update:
  "snd (Environment_update e quiet) = quiet"
  "disturbances (fst (Environment_update e quiet)) =
     updateDisturbances (disturbances e)"
  by (simp_all add: Environment_update_def updateSeasonalFactors_def Let_def quiet_simps
      split: prod.splits)

lemma quiet_updates:
  "snd (updates k e quiet) = quiet \<and>
   disturbances (fst (updates k e quiet)) =
     (updateDisturbances ^^ k) (disturbances e)"
proof (induction k)
  case 0
  then show ?case by simp
next
  case (Suc k)
  obtain e1 g1 where u: "updates k e quiet = (e1, g1)"
    by (cases "updates k e quiet")
  with Suc have g1: "g1 = quiet"
    and d1: "disturbances e1 = (updateDisturbances ^^ k) (disturbances e)" by simp_all
  show ?case
    using quiet_update [of e1] by (simp add: u g1 d1)
qed

theorem addDisturbance_lifetime_witness:
  "temperature (config environment0) = 25 \<and>
   temperature (config (snd (addDisturbance environment0 Fire 1 (real 5) area0))) = 30 \<and>
   fire0\<lparr>current := 4\<rparr> \<in> set (getActiveDisturbances
      (fst (updates 4 (snd (addDisturbance environment0 Fire 1 (real 5) area0)) quiet))) \<and>
   getActiveDisturbances
      (fst (updates 5 (snd (addDisturbance environment0 Fire 1 (real 5) area0)) quiet)) = []"
proof -
  have t: "temperature (config environment0) = 25" "disturbances environment0 = []"
    by (simp_all add: environment0_def Environment_new_def no_config_def or_num_def)
  have D: "\<lparr>d_type = Fire, intensity = 1, duration = real 5, affectedArea = area0,
             current = 0, active = True\<rparr> = fire0"
    by (simp add: fire0_def)
  show ?thesis
    using addDisturbance_lifetime [of environment0 Fire 1 5 area0]
    by (simp add: t D getActiveDisturbances_def quiet_updates addDisturbance_disturbances
        eval_nat_numeral Let_def fire0_def del: updates.simps)
qed


section \<open>Statistics: the stability index\<close>

lemma foldl_plus_sum_list:
  "foldl (\<lambda>sum v. sum + f v) a xs = a + (\<Sum>v\<leftarrow>xs. f v)" for a :: real
  by (induction xs arbitrary: a) simp_all

lemma length_slice_last: "length (slice_last n xs) = min n (length xs)"
  by (simp add: slice_last_def)

text \<open>
  C1. The claim is that the index is 1 with fewer than ten samples and is otherwise
  computed from the mean absolute deviation of the last ten samples divided by their
  mean. The source computes the formula only when more than ten samples exist
  (\<^verbatim>\<open>producers.length > 10\<close>), and its variation is the sum of the ten absolute
  deviations divided by the mean, ten times the mean absolute deviation. With exactly
  ten swinging samples the index is 1 where the specified formula gives 3/4; with eleven
  samples the index is 13/22 where the specified formula gives 211/220.
\<close>

theorem computeStabilityIndex_counterexample:
  "length swinging = 10 \<and>
   computeStabilityIndex swinging (take 10 steady) = Some 1 \<and>
   specifiedStabilityIndex swinging (take 10 steady) = 3/4 \<and>
   length rising = 11 \<and>
   computeStabilityIndex rising steady = Some (13/22) \<and>
   specifiedStabilityIndex rising steady = 211/220"
  by (simp add: computeStabilityIndex_def specifiedStabilityIndex_def meanAbsoluteDeviation_def
      slice_last_def Let_def swinging_def steady_def rising_def)

text \<open>
  The value of the index in terms of the series it is computed from: 1 when at most ten
  samples exist; with more than ten samples and a non-zero mean of the last ten producer
  counts, \<open>max 0 (1 - (producerVariation + herbivoreVariation) / 4)\<close>, where a variation is
  the sum of the absolute deviations of the last ten counts from their mean, divided by
  that mean, and the herbivore variation is 0 unless the herbivore mean is positive.
\<close>

lemma computeStabilityIndex_value:
  fixes producerSeries herbivoreSeries :: "nat list"
  defines "recentProducers \<equiv> slice_last 10 producerSeries"
  defines "recentHerbivores \<equiv> slice_last 10 herbivoreSeries"
  defines "meanProducers \<equiv> (\<Sum>v\<leftarrow>recentProducers. real v) / 10"
  defines "meanHerbivores \<equiv> (\<Sum>v\<leftarrow>recentHerbivores. real v) / real (length recentHerbivores)"
  defines "producerVariation \<equiv> (\<Sum>v\<leftarrow>recentProducers. \<bar>real v - meanProducers\<bar>) / meanProducers"
  defines "herbivoreVariation \<equiv>
     (if meanHerbivores > 0
      then (\<Sum>v\<leftarrow>recentHerbivores. \<bar>real v - meanHerbivores\<bar>) / meanHerbivores else 0)"
  shows "(length producerSeries \<le> 10 \<longrightarrow>
            computeStabilityIndex producerSeries herbivoreSeries = Some 1) \<and>
         (length producerSeries > 10 \<and> meanProducers \<noteq> 0 \<longrightarrow>
            computeStabilityIndex producerSeries herbivoreSeries =
              Some (max 0 (1 - (producerVariation + herbivoreVariation) / 4)))"
proof (intro conjI impI)
  assume "length producerSeries \<le> 10"
  then show "computeStabilityIndex producerSeries herbivoreSeries = Some 1"
    by (simp add: computeStabilityIndex_def)
next
  assume h: "length producerSeries > 10 \<and> meanProducers \<noteq> 0"
  then have len: "length recentProducers = 10"
    by (simp add: recentProducers_def length_slice_last)
  have avgP: "foldl (\<lambda>sum v. sum + real v) 0 recentProducers / real (length recentProducers)
      = meanProducers"
    by (simp add: foldl_plus_sum_list len meanProducers_def)
  have avgH: "foldl (\<lambda>sum v. sum + real v) 0 recentHerbivores / real (length recentHerbivores)
      = meanHerbivores"
    by (simp add: foldl_plus_sum_list meanHerbivores_def)
  show "computeStabilityIndex producerSeries herbivoreSeries =
              Some (max 0 (1 - (producerVariation + herbivoreVariation) / 4))"
    using h unfolding computeStabilityIndex_def Let_def
      recentProducers_def [symmetric] recentHerbivores_def [symmetric] avgP avgH
    by (simp add: foldl_plus_sum_list producerVariation_def herbivoreVariation_def)
qed

text \<open>
  The step and the series. A step that runs (the hook has its \<^verbatim>\<open>Environment\<close> and its
  \<^verbatim>\<open>Grid\<close>) either detects an extinction, counts it and leaves the state and the arrays
  of the statistics as they are, or appends to the arrays that the state refers to.
\<close>

lemma last_slice_last_snoc: "0 < n \<Longrightarrow> last (slice_last n (xs @ [v])) = v"
  by (simp add: slice_last_def)

lemma stabilityIndex_recordStatistics:
  "stabilityIndex (recordStatistics st t gr c) =
     stabilityIndex st @ [computeStabilityIndex (producers st) (herbivores st)]"
  "length (producers (recordStatistics st t gr c)) = length (producers st) + 1"
  by (simp_all add: recordStatistics_def Let_def)

lemma updateStatistics_series:
  assumes "updateStatistics sim t gr c = (sim', address')"
  shows "stabilityIndex (statisticsArrays sim' address') =
           (if length (producers (stateStatistics sim)) < 500
            then stabilityIndex (stateStatistics sim) @
                   [computeStabilityIndex (producers (stateStatistics sim))
                      (herbivores (stateStatistics sim))]
            else slice_last 500 (stabilityIndex (stateStatistics sim) @
                   [computeStabilityIndex (producers (stateStatistics sim))
                      (herbivores (stateStatistics sim))]))"
  using assms
  by (auto simp add: updateStatistics_def Let_def stateStatistics_def sliceStatistics_def
      stabilityIndex_recordStatistics split: if_splits)

lemma checkForExtinction_cases:
  "checkForExtinction sim t d g = (b, sim', g') \<Longrightarrow>
     (b \<longrightarrow> extinctionCount sim' = extinctionCount sim + 1) \<and>
     (\<not> b \<longrightarrow> sim' = sim) \<and>
     state sim' = state sim \<and> statisticsArrays sim' = statisticsArrays sim \<and>
     gridObjects sim' = gridObjects sim \<and> gridRef sim' = gridRef sim \<and>
     environmentRef sim' = environmentRef sim"
  by (auto simp add: checkForExtinction_def Let_def split_def split: if_splits)

lemma runCycle_no_restart:
  assumes "\<not> autoRestartOnExtinction sim" and "runCycle sim g u = Inr (sim', g', u')"
  shows "extinctionCount sim' = extinctionCount sim"
  using assms
  by (auto simp add: runCycle_def checkForExtinction_def updateStatistics_def Let_def split_def
      split: option.splits if_splits)

lemma runCycle_statistics:
  fixes sim :: Simulation
  defines "before \<equiv> stateStatistics sim"
  assumes refs: "environmentRef sim \<noteq> None" "gridRef sim \<noteq> None"
    and run: "runCycle sim g u = Inr (sim', g', u')"
  shows "(extinctionCount sim' = extinctionCount sim \<longrightarrow>
            stabilityIndex (stateStatistics sim') =
              (if length (producers before) < 500
               then stabilityIndex before @
                      [computeStabilityIndex (producers before) (herbivores before)]
               else slice_last 500 (stabilityIndex before @
                      [computeStabilityIndex (producers before) (herbivores before)]))) \<and>
         (extinctionCount sim' \<noteq> extinctionCount sim \<longrightarrow>
            statisticsArrays sim' = statisticsArrays sim \<and> state sim' = state sim)"
proof -
  obtain e a where e: "environmentRef sim = Some e" and a: "gridRef sim = Some a"
    using refs by auto
  define environment1 where "environment1 = fst (Environment_update e g)"
  define g1 where "g1 = snd (Environment_update e g)"
  define c where "c = getConfig environment1"
  define grid2 where "grid2 =
     fold (\<lambda>d gr. applyDisturbance gr (startX (affectedArea d))
                                       (startY (affectedArea d)) (endX (affectedArea d))
                                       (endY (affectedArea d)) (d_type d) (intensity d))
       (getActiveDisturbances environment1) (updateEnvironment (gridObjects sim a) c)"
  define ps where "ps = organismPass c (st_organisms (state sim)) grid2 g1 u"
  define t where "t = fst (settle ps)"
  define grid3 where "grid3 = snd (settle ps)"
  define sim1 where "sim1 = sim\<lparr>environmentRef := Some environment1,
                         gridObjects := (gridObjects sim)(a := grid3)\<rparr>"
  obtain b sim2 g2 where chk: "checkForExtinction sim1 t (day c) (pass_rng ps) = (b, sim2, g2)"
    by (cases "checkForExtinction sim1 t (day c) (pass_rng ps)") auto
  obtain sim3 address' where upd: "updateStatistics sim2 t grid3 c = (sim3, address')"
    by (cases "updateStatistics sim2 t grid3 c") auto
  have "runCycle sim g u =
      (if \<not> movesApply ps then Inl TypeError
       else if b then Inr (sim2, g2, pass_uuids ps)
       else Inr (sim3\<lparr>state := (state sim)\<lparr>
                     st_day := day c,
                     st_season := season c,
                     environment := c,
                     grid := CellsOf a,
                     st_organisms := t,
                     disturbance := (case getActiveDisturbances environment1 of
                                       [] \<Rightarrow> None | d # _ \<Rightarrow> Some d),
                     statistics := address'\<rparr>\<rparr>, g2, pass_uuids ps))"
    using chk upd
    unfolding runCycle_def e a
    by (simp add: Let_def split_def environment1_def [symmetric] g1_def [symmetric]
        c_def [symmetric] grid2_def [symmetric] ps_def [symmetric] t_def [symmetric]
        grid3_def [symmetric] sim1_def [symmetric])
  then have sim': "sim' =
      (if b then sim2
       else sim3\<lparr>state := (state sim)\<lparr>
                     st_day := day c,
                     st_season := season c,
                     environment := c,
                     grid := CellsOf a,
                     st_organisms := t,
                     disturbance := (case getActiveDisturbances environment1 of
                                       [] \<Rightarrow> None | d # _ \<Rightarrow> Some d),
                     statistics := address'\<rparr>\<rparr>)"
    using run by (auto split: if_splits)
  note facts = checkForExtinction_cases [OF chk]
  have s1: "extinctionCount sim1 = extinctionCount sim" "state sim1 = state sim"
    "statisticsArrays sim1 = statisticsArrays sim"
    by (simp_all add: sim1_def)
  have cnt3: "extinctionCount sim3 = extinctionCount sim2"
    using upd by (auto simp add: updateStatistics_def Let_def split: if_splits)
  show ?thesis
  proof (cases b)
    case True
    then show ?thesis
      using sim' facts s1 by simp
  next
    case False
    then have eq: "sim2 = sim1" using facts by simp
    have "stateStatistics sim1 = before"
      by (simp add: stateStatistics_def before_def s1)
    then show ?thesis
      using False sim' eq cnt3 s1 updateStatistics_series [OF upd]
      by (simp add: stateStatistics_def)
  qed
qed

lemma runCycle_empty_table:
  assumes "environmentRef sim \<noteq> None" and "gridRef sim \<noteq> None"
    and "st_organisms (state sim) = []"
  shows "\<exists>sim' g' u'. runCycle sim g u = Inr (sim', g', u') \<and>
           extinctionCount sim' =
             (if autoRestartOnExtinction sim then extinctionCount sim + 1 else extinctionCount sim)"
  using assms
  by (auto simp add: runCycle_def organismPass_def settle_def movesApply_def
      checkForExtinction_def updateStatistics_def
      countProducers_def countHerbivores_def countCarnivores_def countDecomposers_def
      Let_def split_def)

text \<open>
  C1, amended. For every step that is not cut short by an extinction, the stability
  index that the step appends to the series (the last 500 samples are kept) is 1 when
  at most ten samples exist before the step; with more than ten samples and a non-zero
  mean of the last ten producer counts it is
  \<open>max 0 (1 - (producerVariation + herbivoreVariation) / 4)\<close>, where a variation is the
  sum of the absolute deviations of the last ten counts from their mean, divided by that
  mean, and the herbivore variation is 0 unless the herbivore mean is positive. The
  samples before the step are those of the arrays that the state refers to. A step that
  detects an extinction appends nothing.
\<close>

theorem runCycle_stabilityIndex:
  fixes sim sim' :: Simulation and g g' :: rng and u u' :: uuids
  defines "before \<equiv> stateStatistics sim"
  defines "appended \<equiv> last (stabilityIndex (stateStatistics sim'))"
  defines "recentProducers \<equiv> slice_last 10 (producers before)"
  defines "recentHerbivores \<equiv> slice_last 10 (herbivores before)"
  defines "meanProducers \<equiv> (\<Sum>v\<leftarrow>recentProducers. real v) / 10"
  defines "meanHerbivores \<equiv> (\<Sum>v\<leftarrow>recentHerbivores. real v) / real (length recentHerbivores)"
  defines "producerVariation \<equiv> (\<Sum>v\<leftarrow>recentProducers. \<bar>real v - meanProducers\<bar>) / meanProducers"
  defines "herbivoreVariation \<equiv>
     (if meanHerbivores > 0
      then (\<Sum>v\<leftarrow>recentHerbivores. \<bar>real v - meanHerbivores\<bar>) / meanHerbivores else 0)"
  assumes refs: "environmentRef sim \<noteq> None" "gridRef sim \<noteq> None"
    and run: "runCycle sim g u = Inr (sim', g', u')"
  shows "(extinctionCount sim' = extinctionCount sim \<longrightarrow>
            stabilityIndex (stateStatistics sim') =
              (if length (producers before) < 500 then stabilityIndex before @ [appended]
               else slice_last 500 (stabilityIndex before @ [appended])) \<and>
            (length (producers before) \<le> 10 \<longrightarrow> appended = Some 1) \<and>
            (length (producers before) > 10 \<and> meanProducers \<noteq> 0 \<longrightarrow>
               appended = Some (max 0 (1 - (producerVariation + herbivoreVariation) / 4)))) \<and>
         (extinctionCount sim' \<noteq> extinctionCount sim \<longrightarrow>
            stateStatistics sim' = stateStatistics sim)"
proof -
  define v where "v = computeStabilityIndex (producers before) (herbivores before)"
  note link = runCycle_statistics [OF refs run, folded before_def]
  note val = computeStabilityIndex_value [of "producers before" "herbivores before",
      folded v_def recentProducers_def recentHerbivores_def,
      folded meanProducers_def meanHerbivores_def,
      folded producerVariation_def herbivoreVariation_def]
  have app: "appended = v" if "extinctionCount sim' = extinctionCount sim"
    using link that by (simp add: appended_def last_slice_last_snoc v_def)
  show ?thesis
  proof (intro conjI impI)
    assume h: "extinctionCount sim' = extinctionCount sim"
    show "stabilityIndex (stateStatistics sim') =
              (if length (producers before) < 500 then stabilityIndex before @ [appended]
               else slice_last 500 (stabilityIndex before @ [appended]))"
      using link h app [OF h] by (simp add: v_def)
    show "appended = Some 1" if "length (producers before) \<le> 10"
      using val that app [OF h] by simp
    show "appended = Some (max 0 (1 - (producerVariation + herbivoreVariation) / 4))"
      if "length (producers before) > 10 \<and> meanProducers \<noteq> 0"
      using val that app [OF h] by simp
  next
    assume "extinctionCount sim' \<noteq> extinctionCount sim"
    then show "stateStatistics sim' = stateStatistics sim"
      using link by (simp add: stateStatistics_def)
  qed
qed

theorem runCycle_stabilityIndex_witness:
  "environmentRef (statsWorld rising steady) \<noteq> None \<and>
   gridRef (statsWorld rising steady) \<noteq> None \<and>
   runCycle (statsWorld rising steady) quiet ids0 =
     Inr (projr (runCycle (statsWorld rising steady) quiet ids0)) \<and>
   extinctionCount (fst (projr (runCycle (statsWorld rising steady) quiet ids0))) =
     extinctionCount (statsWorld rising steady) \<and>
   length (producers (stateStatistics (statsWorld rising steady))) > 10 \<and>
   sum_list (map real (slice_last 10 (producers (stateStatistics (statsWorld rising steady)))))
     \<noteq> 0 \<and>
   last (stabilityIndex (stateStatistics
     (fst (projr (runCycle (statsWorld rising steady) quiet ids0))))) = Some (13/22) \<and>
   runCycle (statsWorld swinging steady) quiet ids0 =
     Inr (projr (runCycle (statsWorld swinging steady) quiet ids0)) \<and>
   extinctionCount (fst (projr (runCycle (statsWorld swinging steady) quiet ids0))) =
     extinctionCount (statsWorld swinging steady) \<and>
   length (producers (stateStatistics (statsWorld swinging steady))) \<le> 10 \<and>
   last (stabilityIndex (stateStatistics
     (fst (projr (runCycle (statsWorld swinging steady) quiet ids0))))) = Some 1 \<and>
   runCycle ((statsWorld rising steady)\<lparr>autoRestartOnExtinction := True\<rparr>) quiet ids0 =
     Inr (projr
       (runCycle ((statsWorld rising steady)\<lparr>autoRestartOnExtinction := True\<rparr>) quiet ids0)) \<and>
   extinctionCount (fst (projr
       (runCycle ((statsWorld rising steady)\<lparr>autoRestartOnExtinction := True\<rparr>) quiet ids0))) \<noteq>
     extinctionCount ((statsWorld rising steady)\<lparr>autoRestartOnExtinction := True\<rparr>) \<and>
   stateStatistics (fst (projr
       (runCycle ((statsWorld rising steady)\<lparr>autoRestartOnExtinction := True\<rparr>) quiet ids0))) =
     stateStatistics ((statsWorld rising steady)\<lparr>autoRestartOnExtinction := True\<rparr>)"
proof -
  have refs: "environmentRef (statsWorld p h) \<noteq> None" "gridRef (statsWorld p h) \<noteq> None"
    "environmentRef ((statsWorld p h)\<lparr>autoRestartOnExtinction := True\<rparr>) \<noteq> None"
    "gridRef ((statsWorld p h)\<lparr>autoRestartOnExtinction := True\<rparr>) \<noteq> None" for p h
    by (simp_all add: statsWorld_def)
  have empty: "st_organisms (state (statsWorld p h)) = []"
    "st_organisms (state ((statsWorld p h)\<lparr>autoRestartOnExtinction := True\<rparr>)) = []"
    "\<not> autoRestartOnExtinction (statsWorld p h)" for p h
    by (simp_all add: statsWorld_def hook0_def)
  obtain s1 g1 u1 where r1: "runCycle (statsWorld rising steady) quiet ids0 = Inr (s1, g1, u1)"
    and c1: "extinctionCount s1 = extinctionCount (statsWorld rising steady)"
    using runCycle_empty_table [OF refs(1,2) empty(1), of rising steady quiet ids0] empty(3)
    by auto
  obtain s2 g2 u2 where r2: "runCycle (statsWorld swinging steady) quiet ids0 = Inr (s2, g2, u2)"
    and c2: "extinctionCount s2 = extinctionCount (statsWorld swinging steady)"
    using runCycle_empty_table [OF refs(1,2) empty(1), of swinging steady quiet ids0] empty(3)
    by auto
  obtain s3 g3 u3 where
    r3: "runCycle ((statsWorld rising steady)\<lparr>autoRestartOnExtinction := True\<rparr>) quiet ids0 =
         Inr (s3, g3, u3)"
    and c3: "extinctionCount s3 =
         extinctionCount ((statsWorld rising steady)\<lparr>autoRestartOnExtinction := True\<rparr>) + 1"
    using runCycle_empty_table [OF refs(3,4) empty(2), of rising steady quiet ids0]
    by auto
  have series: "stateStatistics (statsWorld p h) = EMPTY_STATS\<lparr>producers := p, herbivores := h\<rparr>"
    for p h
    by (simp add: statsWorld_def stateStatistics_def)
  show ?thesis
    unfolding r1 r2 r3
    using runCycle_stabilityIndex [OF refs(1,2) r1] runCycle_stabilityIndex [OF refs(1,2) r2]
      runCycle_stabilityIndex [OF refs(3,4) r3] c1 c2 c3
    by (simp add: refs series EMPTY_STATS_def slice_last_def swinging_def steady_def rising_def)
qed

text \<open>
  With more than ten samples of which the last ten producer counts are all zero, the
  unguarded quotient is \<^verbatim>\<open>0 / 0\<close> and the index is \<^verbatim>\<open>NaN\<close>.
\<close>

lemma sum_list_real_zero:
  assumes "(\<Sum>v\<leftarrow>xs. real v) = 0"
  shows "(\<Sum>v\<leftarrow>xs. \<bar>real v - 0\<bar>) = 0"
  using assms by simp

lemma computeStabilityIndex_NaN:
  assumes "length producerSeries > 10"
    and "(\<Sum>v\<leftarrow>slice_last 10 producerSeries. real v) = 0"
  shows "computeStabilityIndex producerSeries herbivoreSeries = None"
  using assms sum_list_real_zero [OF assms(2)]
  by (simp add: computeStabilityIndex_def Let_def foldl_plus_sum_list)


section \<open>initialize: no configuration is rejected\<close>

lemma set_cell_dims [simp]:
  "grid_width (set_cell gr x' y' c) = grid_width gr"
  "grid_height (set_cell gr x' y' c) = grid_height gr"
  by (simp_all add: set_cell_def)

lemma wf_grid_set_cell:
  assumes "wf_grid gr"
  shows "wf_grid (set_cell gr x' y' c)"
proof (cases "nat y' < length (cells gr)")
  case False
  then have "set_cell gr x' y' c = gr"
    by (simp add: set_cell_def list_update_beyond)
  then show ?thesis using assms by simp
next
  case True
  have "length row = nat (grid_width gr)"
    if "row \<in> set ((cells gr)[nat y' := (cells gr ! nat y')[nat x' := c]])" for row
  proof -
    from that have "row = (cells gr ! nat y')[nat x' := c] \<or> row \<in> set (cells gr)"
      using set_update_subset_insert by fastforce
    then show ?thesis
      using assms True by (auto simp add: wf_grid_def)
  qed
  then show ?thesis
    using assms by (simp add: wf_grid_def set_cell_def)
qed

lemma map_rng_length: "length (fst (map_rng f xs g)) = length xs"
  by (induction xs arbitrary: g) (simp_all add: split_def Let_def)

lemma map_rng_elements:
  "b \<in> set (fst (map_rng f xs g)) \<Longrightarrow> \<exists>a g'. b = fst (f a g')"
proof (induction xs arbitrary: g)
  case Nil
  then show ?case by simp
next
  case (Cons a as)
  then show ?case
    by (auto simp add: split_def Let_def)
qed

lemma wf_grid_Grid_new:
  "wf_grid (fst (Grid_new w h c g))"
  "grid_width (fst (Grid_new w h c g)) = w"
  "grid_height (fst (Grid_new w h c g)) = h"
proof -
  have "length row = nat w"
    if mem: "row \<in> set (fst (map_rng (\<lambda>y'. map_rng (initializeCell w h c y') [0..w - 1]) [0..h - 1] g))"
    for row
  proof -
    obtain y' g' where "row = fst (map_rng (initializeCell w h c y') [0..w - 1] g')"
      using map_rng_elements [OF mem] by auto
    then show ?thesis by (simp add: map_rng_length)
  qed
  then show "wf_grid (fst (Grid_new w h c g))"
    by (simp add: wf_grid_def Grid_new_def initializeGrid_def split_def Let_def map_rng_length)
  show "grid_width (fst (Grid_new w h c g)) = w" "grid_height (fst (Grid_new w h c g)) = h"
    by (simp_all add: Grid_new_def split_def Let_def)
qed

lemma addOrganism_shape:
  "grid_width (snd (addOrganism gr a)) = grid_width gr"
  "grid_height (snd (addOrganism gr a)) = grid_height gr"
  "wf_grid gr \<Longrightarrow> wf_grid (snd (addOrganism gr a))"
  by (simp_all add: addOrganism_def wf_grid_set_cell split: option.splits)

text \<open>What an assignment to a key does to the counts.\<close>

lemma length_filter_update:
  "length (filter P (map snd (AList.update k v t))) \<le>
     length (filter P (map snd t)) + (if P v then 1 else 0)"
  by (induction t) auto

lemma length_update: "length (AList.update k v t) \<le> length t + 1"
  by (induction t) auto

lemma Producer_kind:
  "a_type (Producer_getAttributes (fst (Producer_new attributes u))) = Producer"
  by (simp add: Producer_getAttributes_def Organism_getAttributes_def Producer_new_def
      Organism_new_def or_obj_def Organism.extend_def split_def Let_def)

lemma Consumer_kind:
  "a_type (Consumer_getAttributes (fst (Consumer_new attributes u))) = Consumer"
  "a_consumerType (Consumer_getAttributes (fst (Consumer_new attributes u))) =
     Some (or_obj (p_consumerType attributes) Herbivore)"
  by (simp_all add: Consumer_getAttributes_def Organism_getAttributes_def Consumer_new_def
      Organism_new_def or_obj_def Organism.extend_def Consumer.fields_def split_def Let_def)

lemma Decomposer_kind:
  "a_type (Decomposer_getAttributes (fst (Decomposer_new attributes u))) = Decomposer"
  by (simp add: Decomposer_getAttributes_def Organism_getAttributes_def Decomposer_new_def
      Organism_new_def or_obj_def Organism.extend_def split_def Let_def)

lemma register_kind:
  fixes a :: OrganismAttributes
  defines "herbivore \<equiv> a_type a = Consumer \<and> a_consumerType a = Some Herbivore"
  defines "carnivore \<equiv> a_type a = Consumer \<and> a_consumerType a = Some Carnivore"
  assumes "holdsAtMost pop w h p hb c d"
  shows "a_type a = Producer \<Longrightarrow>
           holdsAtMost (register a (pop\<lparr>pop_rng := g', pop_uuids := u'\<rparr>)) w h (p + 1) hb c d"
    and "herbivore \<Longrightarrow>
           holdsAtMost (register a (pop\<lparr>pop_rng := g', pop_uuids := u'\<rparr>)) w h p (hb + 1) c d"
    and "carnivore \<Longrightarrow>
           holdsAtMost (register a (pop\<lparr>pop_rng := g', pop_uuids := u'\<rparr>)) w h p hb (c + 1) d"
    and "a_type a = Decomposer \<Longrightarrow>
           holdsAtMost (register a (pop\<lparr>pop_rng := g', pop_uuids := u'\<rparr>)) w h p hb c (d + 1)"
proof -
  let ?t = "pop_organisms pop"
  have P: "countProducers (AList.update (a_id a) a ?t) \<le>
          countProducers ?t + (if a_type a = Producer then 1 else 0)"
    unfolding countProducers_def by (rule length_filter_update)
  have H: "countHerbivores (AList.update (a_id a) a ?t) \<le>
          countHerbivores ?t + (if herbivore then 1 else 0)"
    unfolding countHerbivores_def herbivore_def by (rule length_filter_update)
  have C: "countCarnivores (AList.update (a_id a) a ?t) \<le>
          countCarnivores ?t + (if carnivore then 1 else 0)"
    unfolding countCarnivores_def carnivore_def by (rule length_filter_update)
  have D: "countDecomposers (AList.update (a_id a) a ?t) \<le>
          countDecomposers ?t + (if a_type a = Decomposer then 1 else 0)"
    unfolding countDecomposers_def by (rule length_filter_update)
  have L: "length (AList.update (a_id a) a ?t) \<le> length ?t + 1"
    by (rule length_update)
  show "a_type a = Producer \<Longrightarrow>
           holdsAtMost (register a (pop\<lparr>pop_rng := g', pop_uuids := u'\<rparr>)) w h (p + 1) hb c d"
    using assms(3) P H C D L
    by (simp add: holdsAtMost_def register_def addOrganism_shape herbivore_def carnivore_def)
  show "herbivore \<Longrightarrow>
           holdsAtMost (register a (pop\<lparr>pop_rng := g', pop_uuids := u'\<rparr>)) w h p (hb + 1) c d"
    using assms(3) P H C D L
    by (simp add: holdsAtMost_def register_def addOrganism_shape herbivore_def carnivore_def)
  show "carnivore \<Longrightarrow>
           holdsAtMost (register a (pop\<lparr>pop_rng := g', pop_uuids := u'\<rparr>)) w h p hb (c + 1) d"
    using assms(3) P H C D L
    by (simp add: holdsAtMost_def register_def addOrganism_shape herbivore_def carnivore_def)
  show "a_type a = Decomposer \<Longrightarrow>
           holdsAtMost (register a (pop\<lparr>pop_rng := g', pop_uuids := u'\<rparr>)) w h p hb c (d + 1)"
    using assms(3) P H C D L
    by (simp add: holdsAtMost_def register_def addOrganism_shape herbivore_def carnivore_def)
qed

lemma add_holdsAtMost:
  assumes "holdsAtMost pop w h p hb c d"
  shows "holdsAtMost (addProducer cfg pop) w h (p + 1) hb c d"
    and "holdsAtMost (addHerbivore cfg pop) w h p (hb + 1) c d"
    and "holdsAtMost (addCarnivore cfg pop) w h p hb (c + 1) d"
    and "holdsAtMost (addDecomposer cfg pop) w h p hb c (d + 1)"
proof -
  show "holdsAtMost (addProducer cfg pop) w h (p + 1) hb c d"
    unfolding addProducer_def Let_def split_def
    by (rule register_kind(1) [OF assms]) (simp add: Producer_kind)
  show "holdsAtMost (addHerbivore cfg pop) w h p (hb + 1) c d"
    unfolding addHerbivore_def Let_def split_def
    by (rule register_kind(2) [OF assms]) (simp_all add: Consumer_kind or_obj_def)
  show "holdsAtMost (addCarnivore cfg pop) w h p hb (c + 1) d"
    unfolding addCarnivore_def Let_def split_def
    by (rule register_kind(3) [OF assms]) (simp_all add: Consumer_kind or_obj_def)
  show "holdsAtMost (addDecomposer cfg pop) w h p hb c (d + 1)"
    unfolding addDecomposer_def Let_def split_def
    by (rule register_kind(4) [OF assms]) (simp add: Decomposer_kind)
qed

lemma funpow_holdsAtMost:
  "holdsAtMost pop w h p hb c d \<Longrightarrow> holdsAtMost ((addProducer cfg ^^ n) pop) w h (p + n) hb c d"
  "holdsAtMost pop w h p hb c d \<Longrightarrow> holdsAtMost ((addHerbivore cfg ^^ n) pop) w h p (hb + n) c d"
  "holdsAtMost pop w h p hb c d \<Longrightarrow> holdsAtMost ((addCarnivore cfg ^^ n) pop) w h p hb (c + n) d"
  "holdsAtMost pop w h p hb c d \<Longrightarrow> holdsAtMost ((addDecomposer cfg ^^ n) pop) w h p hb c (d + n)"
  by (induction n) (auto dest: add_holdsAtMost)


text \<open>
  The first call of the hook throws for a negative height. A configuration with a
  negative height reaches \<^verbatim>\<open>initialize\<close> through \<^verbatim>\<open>reset(config)\<close> on a hook that was
  created with a valid configuration; a configuration with zero dimensions passes the
  first call.
\<close>

lemma useSimulation_examples:
  "useSimulation DEFAULT_CONFIG = Inr hook0"
  "useSimulation zeroConfig = Inr hookZero"
  "useSimulation badConfig = Inl RangeError"
  by (simp_all add: useSimulation_def initialGrid_def Array_fill_def DEFAULT_CONFIG_def
      zeroConfig_def badConfig_def hook0_def hookZero_def)

lemma initialize_population:
  fixes cfg :: SimulationConfig and c :: EnvironmentConfig and g :: rng and u :: uuids
  defines "pop4 \<equiv>
     (addDecomposer cfg ^^ nat (initialDecomposers cfg))
       ((addCarnivore cfg ^^ nat (initialCarnivores cfg))
          ((addHerbivore cfg ^^ nat (initialHerbivores cfg))
             ((addProducer cfg ^^ nat (initialProducers cfg))
                \<lparr>pop_organisms = [], pop_grid = fst (Grid_new (gridWidth cfg) (gridHeight cfg) c g),
                 pop_rng = snd (Grid_new (gridWidth cfg) (gridHeight cfg) c g),
                 pop_uuids = u\<rparr>)))"
  shows "holdsAtMost pop4 (gridWidth cfg) (gridHeight cfg)
           (nat (initialProducers cfg)) (nat (initialHerbivores cfg))
           (nat (initialCarnivores cfg)) (nat (initialDecomposers cfg))"
proof -
  have "holdsAtMost
      \<lparr>pop_organisms = [], pop_grid = fst (Grid_new (gridWidth cfg) (gridHeight cfg) c g),
       pop_rng = snd (Grid_new (gridWidth cfg) (gridHeight cfg) c g), pop_uuids = u\<rparr>
      (gridWidth cfg) (gridHeight cfg) 0 0 0 0"
    by (simp add: holdsAtMost_def wf_grid_Grid_new countProducers_def countHerbivores_def
        countCarnivores_def countDecomposers_def)
  from funpow_holdsAtMost(1) [OF this, where cfg = cfg and n = "nat (initialProducers cfg)"]
  have "holdsAtMost ((addProducer cfg ^^ nat (initialProducers cfg))
      \<lparr>pop_organisms = [], pop_grid = fst (Grid_new (gridWidth cfg) (gridHeight cfg) c g),
       pop_rng = snd (Grid_new (gridWidth cfg) (gridHeight cfg) c g), pop_uuids = u\<rparr>)
      (gridWidth cfg) (gridHeight cfg) (nat (initialProducers cfg)) 0 0 0"
    by simp
  from funpow_holdsAtMost(2) [OF this, where cfg = cfg and n = "nat (initialHerbivores cfg)"]
  have "holdsAtMost ((addHerbivore cfg ^^ nat (initialHerbivores cfg))
     ((addProducer cfg ^^ nat (initialProducers cfg))
      \<lparr>pop_organisms = [], pop_grid = fst (Grid_new (gridWidth cfg) (gridHeight cfg) c g),
       pop_rng = snd (Grid_new (gridWidth cfg) (gridHeight cfg) c g), pop_uuids = u\<rparr>))
      (gridWidth cfg) (gridHeight cfg) (nat (initialProducers cfg))
      (nat (initialHerbivores cfg)) 0 0"
    by simp
  from funpow_holdsAtMost(3) [OF this, where cfg = cfg and n = "nat (initialCarnivores cfg)"]
  have "holdsAtMost ((addCarnivore cfg ^^ nat (initialCarnivores cfg))
     ((addHerbivore cfg ^^ nat (initialHerbivores cfg))
     ((addProducer cfg ^^ nat (initialProducers cfg))
      \<lparr>pop_organisms = [], pop_grid = fst (Grid_new (gridWidth cfg) (gridHeight cfg) c g),
       pop_rng = snd (Grid_new (gridWidth cfg) (gridHeight cfg) c g), pop_uuids = u\<rparr>)))
      (gridWidth cfg) (gridHeight cfg) (nat (initialProducers cfg))
      (nat (initialHerbivores cfg)) (nat (initialCarnivores cfg)) 0"
    by simp
  from funpow_holdsAtMost(4) [OF this, where cfg = cfg and n = "nat (initialDecomposers cfg)"]
  show ?thesis
    by (simp add: pop4_def)
qed

text \<open>
  C9. The claim is that \<^verbatim>\<open>initialize\<close> rejects a configuration with a non-positive grid
  dimension or a negative count before anything is built. \<^verbatim>\<open>initialize\<close> has no check
  at all. Called on the hook of the default configuration with the configuration
  \<open>badConfig\<close>, of width 0, height -1 and -5 herbivores, it builds an Environment (of
  width 50, the default that replaces the falsy 0), a Grid without cells, and a table
  with the one producer asked for, which is in no cell. Called by the first render's
  effect on the hook of \<open>zeroConfig\<close>, of width 0, height 0 and -3 producers, it builds an
  Environment of width and height 50, a Grid without cells and an empty table.
\<close>

theorem initialize_counterexample:
  "useSimulation DEFAULT_CONFIG = Inr hook0 \<and>
   gridWidth badConfig \<le> 0 \<and> gridHeight badConfig \<le> 0 \<and> initialHerbivores badConfig < 0 \<and>
   currentGrid (fst (initialize hook0 (Some badConfig) quiet ids0)) =
     Some \<lparr>grid_width = 0, grid_height = - 1, cells = []\<rparr> \<and>
   environmentRef (fst (initialize hook0 (Some badConfig) quiet ids0)) =
     Some \<lparr>config = \<lparr>temperature = 25, rainfall = 30, seasonalFactor = 1, nutrientLevel = 50,
              sunlightIntensity = 80, width = 50, height = - 1, pollutionLevel = 10,
              season = Spring, day = 0\<rparr>, env_day = 0, disturbances = []\<rparr> \<and>
   map fst (st_organisms (state (fst (initialize hook0 (Some badConfig) quiet ids0)))) = [''i''] \<and>
   useSimulation zeroConfig = Inr hookZero \<and>
   gridWidth zeroConfig \<le> 0 \<and> gridHeight zeroConfig \<le> 0 \<and> initialProducers zeroConfig < 0 \<and>
   currentGrid (fst (initialize hookZero None quiet ids0)) =
     Some \<lparr>grid_width = 0, grid_height = 0, cells = []\<rparr> \<and>
   environmentRef (fst (initialize hookZero None quiet ids0)) =
     Some \<lparr>config = \<lparr>temperature = 25, rainfall = 30, seasonalFactor = 1, nutrientLevel = 50,
              sunlightIntensity = 80, width = 50, height = 50, pollutionLevel = 10,
              season = Spring, day = 0\<rparr>, env_day = 0, disturbances = []\<rparr> \<and>
   st_organisms (state (fst (initialize hookZero None quiet ids0))) = []"
  by (simp add: useSimulation_examples)
     (simp add: initialize_def hook0_def hookZero_def badConfig_def zeroConfig_def Let_def
      currentGrid_def or_obj_def or_num_def
      or_int_def or_str_def or_bool_def Environment_new_def no_config_def getConfig_def Grid_new_def
      initializeGrid_def addProducer_def register_def addOrganism_def getCell_def
      Producer_new_def Organism_new_def Producer_getAttributes_def Organism_getAttributes_def
      no_attributes_def randomPosition_def quiet_snth ids0_simps Organism.extend_def
      Producer.fields_def)

text \<open>
  After \<^verbatim>\<open>initialize\<close> has built its state for a configuration of negative height, the
  next render of the hook throws.
\<close>

lemma rerender_after_initialize:
  "rerender (fst (initialize sim (Some badConfig) g u)) = Inl RangeError"
  by (simp add: rerender_def initialize_def Let_def split_def initialGrid_def Array_fill_def
      badConfig_def)

text \<open>
  C9, amended. \<^verbatim>\<open>initialize\<close> validates nothing: for every configuration (the one it
  is given or, without one, the hook's) it stores the configuration and builds an
  Environment, a Grid and a table. The width and height of the Environment are the
  configured ones, or 50 where the configured one is 0. The Grid has the configured
  width and height, with as many rows as the height and as many cells in a row as the
  width, none when that is zero or negative; the state shows the cells of this Grid. The
  table holds at most as many organisms of a kind as configured, none of a kind whose
  count is zero or negative, and nothing else.
\<close>

theorem initialize_never_rejects:
  fixes sim :: Simulation and newConfig :: "SimulationConfig option" and g :: rng and u :: uuids
  defines "cfg \<equiv> or_obj newConfig (sim_config sim)"
  defines "sim' \<equiv> fst (initialize sim newConfig g u)"
  shows "sim_config sim' = cfg \<and>
         (\<exists>e. environmentRef sim' = Some e \<and>
            width (config e) = (if gridWidth cfg = 0 then 50 else gridWidth cfg) \<and>
            height (config e) = (if gridHeight cfg = 0 then 50 else gridHeight cfg)) \<and>
         (\<exists>gr. currentGrid sim' = Some gr \<and>
            stateGrid sim' = map (map Some) (cells gr) \<and>
            grid_width gr = gridWidth cfg \<and> grid_height gr = gridHeight cfg \<and>
            length (cells gr) = nat (gridHeight cfg) \<and>
            (\<forall>row\<in>set (cells gr). length row = nat (gridWidth cfg))) \<and>
         countProducers (st_organisms (state sim')) \<le> nat (initialProducers cfg) \<and>
         countHerbivores (st_organisms (state sim')) \<le> nat (initialHerbivores cfg) \<and>
         countCarnivores (st_organisms (state sim')) \<le> nat (initialCarnivores cfg) \<and>
         countDecomposers (st_organisms (state sim')) \<le> nat (initialDecomposers cfg) \<and>
         length (st_organisms (state sim')) \<le>
           nat (initialProducers cfg) + nat (initialHerbivores cfg) +
           nat (initialCarnivores cfg) + nat (initialDecomposers cfg)"
proof -
  define e where "e = Environment_new
            (no_config\<lparr>pe_temperature := Some (initialTemperature cfg),
                        pe_rainfall := Some (initialRainfall cfg)\<rparr>)
            (Some cfg)"
  define pop4 where "pop4 =
     (addDecomposer cfg ^^ nat (initialDecomposers cfg))
       ((addCarnivore cfg ^^ nat (initialCarnivores cfg))
          ((addHerbivore cfg ^^ nat (initialHerbivores cfg))
             ((addProducer cfg ^^ nat (initialProducers cfg))
                \<lparr>pop_organisms = [],
                 pop_grid = fst (Grid_new (gridWidth cfg) (gridHeight cfg) (getConfig e) g),
                 pop_rng = snd (Grid_new (gridWidth cfg) (gridHeight cfg) (getConfig e) g),
                 pop_uuids = u\<rparr>)))"
  have pop: "holdsAtMost pop4 (gridWidth cfg) (gridHeight cfg)
           (nat (initialProducers cfg)) (nat (initialHerbivores cfg))
           (nat (initialCarnivores cfg)) (nat (initialDecomposers cfg))"
    unfolding pop4_def by (rule initialize_population)
  have dims: "width (config e) = (if gridWidth cfg = 0 then 50 else gridWidth cfg)"
    "height (config e) = (if gridHeight cfg = 0 then 50 else gridHeight cfg)"
    by (simp_all add: e_def Environment_new_def no_config_def or_int_def)
  have run: "environmentRef sim' = Some e" "currentGrid sim' = Some (pop_grid pop4)"
    "stateGrid sim' = map (map Some) (cells (pop_grid pop4))"
    "st_organisms (state sim') = pop_organisms pop4" "sim_config sim' = cfg"
    unfolding sim'_def initialize_def Let_def split_def cfg_def [symmetric]
      e_def [symmetric] pop4_def [symmetric]
    by (simp_all add: currentGrid_def stateGrid_def cfg_def or_obj_def split: option.splits)
  show ?thesis
    using pop dims unfolding run holdsAtMost_def wf_grid_def by simp
qed

theorem initialize_never_rejects_witness:
  "gridWidth badConfig \<le> 0 \<and> gridHeight badConfig \<le> 0 \<and> initialHerbivores badConfig < 0 \<and>
   environmentRef (fst (initialize hook0 (Some badConfig) quiet ids0)) \<noteq> None \<and>
   map_option cells (currentGrid (fst (initialize hook0 (Some badConfig) quiet ids0))) = Some [] \<and>
   countHerbivores (st_organisms (state (fst (initialize hook0 (Some badConfig) quiet ids0)))) = 0 \<and>
   length (st_organisms (state (fst (initialize hook0 (Some badConfig) quiet ids0)))) \<le> 1"
  using initialize_never_rejects [of hook0 "Some badConfig" quiet ids0]
  by (auto simp add: badConfig_def or_obj_def)


section \<open>Shared arrays and cells\<close>

text \<open>
  \<^verbatim>\<open>initialize\<close> does not empty the series of the statistics: the new state refers to
  the arrays of \<^verbatim>\<open>EMPTY_STATS\<close>, which hold what the steps since the first render have
  pushed into them, until a step replaces them by their last 500 samples.
\<close>

lemma initialize_keeps_series:
  "stateStatistics (fst (initialize sim newConfig g u)) = statisticsArrays sim 0"
  by (simp add: initialize_def stateStatistics_def Let_def split_def split: option.splits)

text \<open>
  A snapshot refers to the arrays and the cells of the state it was taken from: what it
  shows follows the steps that come after it.
\<close>

lemma saveSimulation_shares:
  "statistics (saved_state (saveSimulation sim n d)) = statistics (state sim) \<and>
   grid (saved_state (saveSimulation sim n d)) = grid (state sim)"
  by (simp add: saveSimulation_def)

section \<open>loadSimulation after saveSimulation\<close>

text \<open>
  C2. The claim is that loading a saved snapshot reproduces the world, the internal
  state of the Grid and the Environment included. \<^verbatim>\<open>loadSimulation\<close> restores the React
  state, but it builds the Environment with the constructor, which sets the day counter
  to 0 and the list of disturbances to empty whatever the snapshot holds: for every
  world the loaded Environment is on day 0 without disturbances.
\<close>

theorem loadSimulation_restarts_environment:
  "map_option env_day (environmentRef (fst (loadSimulation sim (Some (saveSimulation sim n d)) g)))
     = Some 0 \<and>
   map_option disturbances
     (environmentRef (fst (loadSimulation sim (Some (saveSimulation sim n d)) g))) = Some [] \<and>
   state (fst (loadSimulation sim (Some (saveSimulation sim n d)) g)) = state sim"
  by (simp add: loadSimulation_def saveSimulation_def Environment_new_def Let_def split_def)

end
